theory Spec2Isabelle
  imports Main "HOL-Library.Word"
begin

section \<open>Data model\<close>

text \<open>
  The finality-provider app of \<^verbatim>\<open>finality-provider/service/app.go\<close>. Byte strings are
  lists of 8-bit words, heights and voting power are Go's \<^verbatim>\<open>uint64\<close>. A BTC public key is
  kept in its 32-byte x-only form, so \<^verbatim>\<open>MustToBTCPK\<close>, \<^verbatim>\<open>NewBIP340PubKeyFromBTCPK\<close> and
  \<^verbatim>\<open>MustMarshal\<close> are the identity on it. Logging and metrics recording are left out:
  they neither return a value nor touch the stores.
\<close>

type_synonym bytes = "8 word list"
type_synonym uint64 = "64 word"
type_synonym btc_pk = bytes

datatype FinalityProviderStatus = CREATED | REGISTERED | ACTIVE | INACTIVE | JAILED | SLASHED

datatype BTCSigType = BIP340 | BIP322 | ECDSA

record ProofOfPossessionBTC =
  BtcSigType :: BTCSigType
  BtcSig :: bytes

record BlockInfo =
  Height :: uint64
  Hash :: bytes

record TxResponse =
  TxHash :: string

record StoredFinalityProvider =
  FPAddr :: string
  BtcPk :: btc_pk
  Description :: string
  Commission :: int
  ChainID :: string
  KeyName :: string
  PopBtcSig :: bytes
  Status :: FinalityProviderStatus
  LastVotedHeight :: uint64

text \<open>
  Errors are values. The first group are the errors of the collaborators, passed on as
  they are; the last group are the wrappers that \<^verbatim>\<open>fmt.Errorf("...: %w", err)\<close> builds in
  \<^verbatim>\<open>app.go\<close>.
\<close>

datatype error =
    ErrChain string
  | ErrEOTS string
  | ErrKeyring string
  | ErrInvalidPubKey
  | ErrInvalidSignature
  | ErrInvalidAddress
  | ErrMarshal
  | ErrDatabase string
  | ErrFinalityProviderNotFound
  | ErrDuplicateFinalityProvider
  | ErrSlashedIsTerminal
  | ErrMultipleFinalityProviders
  | ErrManagerStop string
  | ErrAlreadyRegistered
  | ErrEotsPkNil
  | ErrShuttingDown
  | ErrKeyNameDoesNotExist string error
  | ErrFailedToCreatePop error
  | ErrFailedToSaveFp error
  | ErrFailedToGetFpFromDb error
  | ErrFailedToSendUnjail error
  | ErrFailedToUpdateStatusAfterUnjail error
  | ErrFailedToGetSchnorrSig error

section \<open>The collaborators of the app\<close>

text \<open>
  The consumer chain (\<^verbatim>\<open>ClientController\<close>), the EOTS manager, the keyring and the
  library functions on keys, signatures and addresses are interfaces of other packages.
  The app sees them only through what a call returns, so they are the fields of an
  environment that every operation takes. \<^verbatim>\<open>tmhash.Sum\<close> is SHA-256.
  \<open>db_View\<close> is what the key-value backend under the stores answers when the records of
  the bucket are read in one transaction: an error, or nothing when the read goes through.
  \<open>select_quit\<close> is the scheduler's choice in the \<^verbatim>\<open>select\<close> of a caller that waits for a
  reply while \<^verbatim>\<open>Stop\<close> closes the quit channel.
\<close>

record env =
  QueryBestBlock :: "error + BlockInfo"
  QueryFinalityProviderVotingPower :: "btc_pk \<Rightarrow> uint64 \<Rightarrow> error + uint64"
  cc_RegisterFinalityProvider :: "btc_pk \<Rightarrow> bytes \<Rightarrow> int \<Rightarrow> bytes \<Rightarrow> error + TxResponse"
  cc_UnjailFinalityProvider :: "btc_pk \<Rightarrow> error + TxResponse"
  SignSchnorrSig :: "bytes \<Rightarrow> bytes \<Rightarrow> string \<Rightarrow> error + bytes"
  schnorr_Verify :: "btc_pk \<Rightarrow> bytes \<Rightarrow> bytes \<Rightarrow> bool"
  em_Close :: "error option"
  fpm_Stop :: "error option"
  tmhash_Sum :: "bytes \<Rightarrow> bytes"
  NewBIP340PubKeyFromHex :: "string \<Rightarrow> error + btc_pk"
  NewBIP340Signature :: "bytes \<Rightarrow> error + bytes"
  AccAddressFromBech32 :: "string \<Rightarrow> error + bytes"
  AccAddress_String :: "bytes \<Rightarrow> string"
  pop_Marshal :: "ProofOfPossessionBTC \<Rightarrow> error + bytes"
  description_Marshal :: "string \<Rightarrow> error + bytes"
  NewChainKeyringControllerWithKeyring :: "string \<Rightarrow> error option"
  kr_Address :: "string \<Rightarrow> string \<Rightarrow> error + bytes"
  db_View :: "error option"
  select_quit :: bool

section \<open>The finality-provider store\<close>

type_synonym FinalityProviderStore = "StoredFinalityProvider list"

text \<open>
  Modelled from the spec: the package \<^verbatim>\<open>finality-provider/store\<close> is not among the
  sources. Section 6 of the spec gives the bucket \<^verbatim>\<open>finality_providers\<close> with key
  \<^verbatim>\<open>btc_pk\<close> and value the stored record; a lookup of a key that is not there fails.
\<close>

definition GetFinalityProvider ::
  "btc_pk \<Rightarrow> FinalityProviderStore \<Rightarrow> error + StoredFinalityProvider" where
  "GetFinalityProvider pk st =
     (case find (\<lambda>fp. BtcPk fp = pk) st of
        None \<Rightarrow> Inl ErrFinalityProviderNotFound
      | Some fp \<Rightarrow> Inr fp)"

text \<open>
  Modelled from the spec: \<^verbatim>\<open>GetAllStoredFinalityProviders\<close> of the store package returns
  the records of the bucket. The read is a transaction of the key-value backend, which
  section 1 of the spec keeps outside the core as an opaque backend; when the backend
  fails the read, its error is returned, as \<^verbatim>\<open>SyncFinalityProviderStatus\<close> expects of the
  call.
\<close>

definition GetAllStoredFinalityProviders ::
  "env \<Rightarrow> FinalityProviderStore \<Rightarrow> error + StoredFinalityProvider list" where
  "GetAllStoredFinalityProviders e st =
     (case db_View e of Some err \<Rightarrow> Inl err | None \<Rightarrow> Inr st)"

text \<open>
  Modelled from the spec: \<^verbatim>\<open>SetFpStatus\<close> of the store package. Section 5 of the spec:
  status writes go through the store's atomic update, which refuses transitions out of
  SLASHED. A refused write and a write to a key that is not stored return an error and
  leave the bucket as it was.
\<close>

definition SetFpStatus ::
  "btc_pk \<Rightarrow> FinalityProviderStatus \<Rightarrow> FinalityProviderStore \<Rightarrow> error + FinalityProviderStore" where
  "SetFpStatus pk status st =
     (case GetFinalityProvider pk st of
        Inl e \<Rightarrow> Inl e
      | Inr fp \<Rightarrow>
          if Status fp = SLASHED \<and> status \<noteq> SLASHED then Inl ErrSlashedIsTerminal
          else Inr (map (\<lambda>f. if BtcPk f = pk then f\<lparr>Status := status\<rparr> else f) st))"

text \<open>
  Modelled from the spec: \<^verbatim>\<open>CreateFinalityProvider\<close> of the store package. Section 3 of
  the spec: \<^verbatim>\<open>btc_pk\<close> is the primary key, unique across stored providers; a new record
  has status CREATED and \<^verbatim>\<open>last_voted_height\<close> 0.
\<close>

definition fps_CreateFinalityProvider ::
  "string \<Rightarrow> btc_pk \<Rightarrow> string \<Rightarrow> int \<Rightarrow> string \<Rightarrow> string \<Rightarrow> bytes \<Rightarrow>
     FinalityProviderStore \<Rightarrow> error + FinalityProviderStore" where
  "fps_CreateFinalityProvider fpAddr btcPk description commission keyName chainID btcSig st =
     (if btcPk \<in> set (map BtcPk st) then Inl ErrDuplicateFinalityProvider
      else Inr (st @ [\<lparr>FPAddr = fpAddr, BtcPk = btcPk, Description = description,
                        Commission = commission, ChainID = chainID, KeyName = keyName,
                        PopBtcSig = btcSig, Status = CREATED, LastVotedHeight = 0\<rparr>]))"

text \<open>
  Modelled from the spec: \<^verbatim>\<open>UpdateFpStatusFromVotingPower\<close> of the store package. Its cases
  are the ones the documentation of \<^verbatim>\<open>syncChainFpStatusLoop\<close> in \<^verbatim>\<open>app.go\<close> lists (some voting
  power sets ACTIVE; zero voting power takes CREATED to REGISTERED and ACTIVE to INACTIVE),
  under the spec's rule (sections 4.1 and 8) that SLASHED dominates every other signal. It
  returns the new status and writes it with \<open>SetFpStatus\<close>.
\<close>

definition UpdateFpStatusFromVotingPower ::
  "uint64 \<Rightarrow> StoredFinalityProvider \<Rightarrow> FinalityProviderStore \<Rightarrow>
     error + (FinalityProviderStatus \<times> FinalityProviderStore)" where
  "UpdateFpStatusFromVotingPower vp fp st =
     (if Status fp = SLASHED then Inr (SLASHED, st)
      else if 0 < vp then
        (case SetFpStatus (BtcPk fp) ACTIVE st of
           Inl e \<Rightarrow> Inl e | Inr st' \<Rightarrow> Inr (ACTIVE, st'))
      else if Status fp = CREATED then
        (case SetFpStatus (BtcPk fp) REGISTERED st of
           Inl e \<Rightarrow> Inl e | Inr st' \<Rightarrow> Inr (REGISTERED, st'))
      else if Status fp = ACTIVE then
        (case SetFpStatus (BtcPk fp) INACTIVE st of
           Inl e \<Rightarrow> Inl e | Inr st' \<Rightarrow> Inr (INACTIVE, st'))
      else Inr (Status fp, st))"

text \<open>
  Modelled from the spec: \<^verbatim>\<open>ShouldStart\<close> of the stored record. Section 4.1: only
  providers in ACTIVE, INACTIVE or REGISTERED are eligible to be started.
\<close>

definition ShouldStart :: "StoredFinalityProvider \<Rightarrow> bool" where
  "ShouldStart fp = (Status fp = ACTIVE \<or> Status fp = INACTIVE \<or> Status fp = REGISTERED)"

section \<open>The app\<close>

datatype worker = SyncChainFpStatusLoop | EventLoop | RegistrationLoop | MetricsUpdateLoop

datatype cc_submission = SubmitRegister btc_pk | SubmitUnjail btc_pk

text \<open>
  The state of a \<^verbatim>\<open>FinalityProviderApp\<close>: the two \<^verbatim>\<open>sync.Once\<close>, the quit channel (closed or
  not), the wait-group counter with the goroutines that are alive, the store, the
  manager (the instance it runs, and whether it and the EOTS manager were stopped), and
  the transactions handed to the \<^verbatim>\<open>ClientController\<close> so far.
\<close>

record FinalityProviderApp =
  startOnce :: bool
  stopOnce :: bool
  quit :: bool
  wg :: nat
  workers :: "worker list"
  fps :: FinalityProviderStore
  fpm_running :: "btc_pk option"
  fpm_stopped :: bool
  eots_closed :: bool
  cc_log :: "cc_submission list"

definition NewFinalityProviderApp :: "FinalityProviderStore \<Rightarrow> FinalityProviderApp" where
  "NewFinalityProviderApp db =
     \<lparr>startOnce = False, stopOnce = False, quit = False, wg = 0, workers = [],
      fps = db, fpm_running = None, fpm_stopped = False, eots_closed = False, cc_log = []\<rparr>"

text \<open>
  Modelled from the spec: \<^verbatim>\<open>IsFinalityProviderRunning\<close> of the
  \<^verbatim>\<open>FinalityProviderManager\<close>, which is not among the sources. Section 2 of the spec: the
  manager holds the lifecycle of the instances, at most one of them active.
\<close>

definition IsFinalityProviderRunning :: "btc_pk \<Rightarrow> FinalityProviderApp \<Rightarrow> bool" where
  "IsFinalityProviderRunning pk app = (fpm_running app = Some pk)"

text \<open>
  Modelled from the spec: \<^verbatim>\<open>StartFinalityProvider\<close> of the \<^verbatim>\<open>FinalityProviderManager\<close>.
  Section 2 of the spec: at most one instance is active, so starting an instance while
  one is running is an error.
\<close>

definition StartFinalityProvider ::
  "btc_pk \<Rightarrow> FinalityProviderApp \<Rightarrow> error + FinalityProviderApp" where
  "StartFinalityProvider pk app =
     (case fpm_running app of
        Some other \<Rightarrow> Inl ErrMultipleFinalityProviders
      | None \<Rightarrow> Inr (app\<lparr>fpm_running := Some pk\<rparr>))"

subsection \<open>Proof of possession\<close>

text \<open>
  \<^verbatim>\<open>CreatePop\<close>: the signature type is BIP-340, the message handed to the EOTS manager is
  \<^verbatim>\<open>tmhash.Sum\<close> of the address bytes, the key is named by its public key only, and the
  signature the manager returns is stored in its serialised form.
\<close>

definition CreatePop :: "env \<Rightarrow> bytes \<Rightarrow> btc_pk \<Rightarrow> string \<Rightarrow> error + ProofOfPossessionBTC" where
  "CreatePop e fpAddress fpPk passphrase =
     (let hash = tmhash_Sum e fpAddress in
      case SignSchnorrSig e fpPk hash passphrase of
        Inl err \<Rightarrow> Inl (ErrFailedToGetSchnorrSig err)
      | Inr sig \<Rightarrow> Inr \<lparr>BtcSigType = BIP340, BtcSig = sig\<rparr>)"

text \<open>
  Modelled from the spec: the verification of a proof of possession belongs to the chain's
  library. Section 6 of the spec: parse \<^verbatim>\<open>btc_sig\<close> as BIP-340 and verify it against the
  x-only \<^verbatim>\<open>btc_pk\<close>, the message being SHA-256 of the address bytes.
\<close>

definition VerifyBIP340 :: "env \<Rightarrow> bytes \<Rightarrow> btc_pk \<Rightarrow> ProofOfPossessionBTC \<Rightarrow> bool" where
  "VerifyBIP340 e fpAddress fpPk pop =
     (BtcSigType pop = BIP340 \<and> schnorr_Verify e fpPk (tmhash_Sum e fpAddress) (BtcSig pop))"

subsection \<open>Creating a finality provider\<close>

record createFinalityProviderRequest =
  keyName :: string
  chainID :: string
  passPhrase :: string
  hdPath :: string
  eotsPk :: "btc_pk option"
  description :: string
  commission :: int

text \<open>
  What a call of the app does: it returns a value or an error, the process is aborted
  by \<^verbatim>\<open>logger.Fatal\<close>, or the caller stays blocked on a channel that no loop reads.
\<close>

datatype 'a call = Returns "error + 'a" | Fatal error | Blocks

definition handleCreateFinalityProviderRequest ::
  "env \<Rightarrow> createFinalityProviderRequest \<Rightarrow> FinalityProviderApp \<Rightarrow>
     (error + StoredFinalityProvider) \<times> FinalityProviderApp" where
  "handleCreateFinalityProviderRequest e req app =
     (case NewChainKeyringControllerWithKeyring e (keyName req) of
        Some err \<Rightarrow> (Inl err, app)
      | None \<Rightarrow>
     (case kr_Address e (keyName req) (passPhrase req) of
        Inl err \<Rightarrow> (Inl (ErrKeyNameDoesNotExist (keyName req) err), app)
      | Inr fpAddr \<Rightarrow>
     (case eotsPk req of
        None \<Rightarrow> (Inl ErrEotsPkNil, app)
      | Some btcPk \<Rightarrow>
     (case CreatePop e fpAddr btcPk (passPhrase req) of
        Inl err \<Rightarrow> (Inl (ErrFailedToCreatePop err), app)
      | Inr pop \<Rightarrow>
     (case fps_CreateFinalityProvider (AccAddress_String e fpAddr) btcPk (description req)
             (commission req) (keyName req) (chainID req) (BtcSig pop) (fps app) of
        Inl err \<Rightarrow> (Inl (ErrFailedToSaveFp err), app)
      | Inr st' \<Rightarrow>
     (case GetFinalityProvider btcPk st' of
        Inl err \<Rightarrow> (Inl err, app\<lparr>fps := st'\<rparr>)
      | Inr storedFp \<Rightarrow> (Inr storedFp, app\<lparr>fps := st'\<rparr>)))))))"

text \<open>
  \<^verbatim>\<open>CreateFinalityProvider\<close> sends the request to the event loop and waits for its reply or
  for the quit channel. With no event loop the send never completes.
\<close>

definition CreateFinalityProvider ::
  "env \<Rightarrow> createFinalityProviderRequest \<Rightarrow> FinalityProviderApp \<Rightarrow>
     StoredFinalityProvider call \<times> FinalityProviderApp" where
  "CreateFinalityProvider e req app =
     (if EventLoop \<notin> set (workers app) then (Blocks, app)
      else (case handleCreateFinalityProviderRequest e req app of
              (r, app') \<Rightarrow>
                if select_quit e then (Returns (Inl ErrShuttingDown), app')
                else (Returns r, app')))"

subsection \<open>Registering a finality provider\<close>

record registerFinalityProviderRequest =
  req_fpAddr :: bytes
  req_btcPubKey :: btc_pk
  req_pop :: ProofOfPossessionBTC
  req_description :: string
  req_commission :: int

record finalityProviderRegisteredEvent =
  ev_bbnAddress :: bytes
  ev_btcPubKey :: btc_pk
  ev_txHash :: string

record RegisterFinalityProviderResponse =
  resp_bbnAddress :: bytes
  resp_btcPubKey :: btc_pk
  resp_TxHash :: string

text \<open>One request in \<^verbatim>\<open>registrationLoop\<close>: no retries; an error goes back to the caller.\<close>

definition registrationLoop_request ::
  "env \<Rightarrow> registerFinalityProviderRequest \<Rightarrow> FinalityProviderApp \<Rightarrow>
     (error + finalityProviderRegisteredEvent) \<times> FinalityProviderApp" where
  "registrationLoop_request e req app =
     (case pop_Marshal e (req_pop req) of
        Inl err \<Rightarrow> (Inl err, app)
      | Inr popBytes \<Rightarrow>
     (case description_Marshal e (req_description req) of
        Inl err \<Rightarrow> (Inl err, app)
      | Inr desBytes \<Rightarrow>
          (let app1 = app\<lparr>cc_log := cc_log app @ [SubmitRegister (req_btcPubKey req)]\<rparr> in
           case cc_RegisterFinalityProvider e (req_btcPubKey req) popBytes
                  (req_commission req) desBytes of
             Inl err \<Rightarrow> (Inl err, app1)
           | Inr res \<Rightarrow>
               (Inr \<lparr>ev_bbnAddress = req_fpAddr req, ev_btcPubKey = req_btcPubKey req,
                     ev_txHash = TxHash res\<rparr>, app1))))"

text \<open>
  One registered event in \<^verbatim>\<open>eventLoop\<close>: the status is written first; a failed write is
  fatal, and only after a successful one is the response sent to the caller.
\<close>

definition eventLoop_registered ::
  "finalityProviderRegisteredEvent \<Rightarrow> FinalityProviderApp \<Rightarrow>
     RegisterFinalityProviderResponse call \<times> FinalityProviderApp" where
  "eventLoop_registered ev app =
     (case SetFpStatus (ev_btcPubKey ev) REGISTERED (fps app) of
        Inl err \<Rightarrow> (Fatal err, app)
      | Inr st' \<Rightarrow>
          (Returns (Inr \<lparr>resp_bbnAddress = ev_bbnAddress ev, resp_btcPubKey = ev_btcPubKey ev,
                          resp_TxHash = ev_txHash ev\<rparr>),
           app\<lparr>fps := st'\<rparr>))"

definition select_reply :: "env \<Rightarrow> error + 'a \<Rightarrow> 'a call" where
  "select_reply e r = (if select_quit e then Returns (Inl ErrShuttingDown) else Returns r)"

definition RegisterFinalityProvider ::
  "env \<Rightarrow> string \<Rightarrow> FinalityProviderApp \<Rightarrow>
     RegisterFinalityProviderResponse call \<times> FinalityProviderApp" where
  "RegisterFinalityProvider e fpPkStr app =
     (case NewBIP340PubKeyFromHex e fpPkStr of
        Inl err \<Rightarrow> (Returns (Inl err), app)
      | Inr fpPk \<Rightarrow>
     (case GetFinalityProvider fpPk (fps app) of
        Inl err \<Rightarrow> (Returns (Inl err), app)
      | Inr fp \<Rightarrow>
          if Status fp \<noteq> CREATED then (Returns (Inl ErrAlreadyRegistered), app)
          else
     (case NewBIP340Signature e (PopBtcSig fp) of
        Inl err \<Rightarrow> (Returns (Inl err), app)
      | Inr btcSig \<Rightarrow>
     (case AccAddressFromBech32 e (FPAddr fp) of
        Inl err \<Rightarrow> (Returns (Inl err), app)
      | Inr fpAddr \<Rightarrow>
          (let request = \<lparr>req_fpAddr = fpAddr, req_btcPubKey = BtcPk fp,
                          req_pop = \<lparr>BtcSigType = BIP340, BtcSig = btcSig\<rparr>,
                          req_description = Description fp,
                          req_commission = Commission fp\<rparr> in
           if RegistrationLoop \<notin> set (workers app) then (Blocks, app)
           else
             (case registrationLoop_request e request app of
                (Inl err, app1) \<Rightarrow> (select_reply e (Inl err), app1)
              | (Inr ev, app1) \<Rightarrow>
                  if EventLoop \<notin> set (workers app1) then (Blocks, app1)
                  else
                    (case eventLoop_registered ev app1 of
                       (Returns r, app2) \<Rightarrow> (select_reply e r, app2)
                     | (Fatal err, app2) \<Rightarrow> (Fatal err, app2)
                     | (Blocks, app2) \<Rightarrow> (Blocks, app2))))))))"

subsection \<open>Unjailing\<close>

definition UnjailFinalityProvider ::
  "env \<Rightarrow> btc_pk \<Rightarrow> FinalityProviderApp \<Rightarrow> (error + string) \<times> FinalityProviderApp" where
  "UnjailFinalityProvider e fpPk app =
     (case GetFinalityProvider fpPk (fps app) of
        Inl err \<Rightarrow> (Inl (ErrFailedToGetFpFromDb err), app)
      | Inr fp \<Rightarrow>
          (let app1 = app\<lparr>cc_log := cc_log app @ [SubmitUnjail fpPk]\<rparr> in
           case cc_UnjailFinalityProvider e fpPk of
             Inl err \<Rightarrow> (Inl (ErrFailedToSendUnjail err), app1)
           | Inr res \<Rightarrow>
               (case SetFpStatus fpPk INACTIVE (fps app1) of
                  Inl err \<Rightarrow> (Inl (ErrFailedToUpdateStatusAfterUnjail err), app1)
                | Inr st' \<Rightarrow> (Inr (TxHash res), app1\<lparr>fps := st'\<rparr>))))"

subsection \<open>Syncing the status with the chain\<close>

text \<open>
  The body of the \<^verbatim>\<open>for\<close> loop of \<^verbatim>\<open>SyncFinalityProviderStatus\<close>, over the records read at
  the start; \<open>running\<close> is \<^verbatim>\<open>fpInstanceRunning\<close>. A return with an error gives up the flag,
  as \<^verbatim>\<open>return false, err\<close> does. \<open>ShouldStart\<close> is asked of the record the loop holds,
  after the new status has been written into it.
\<close>

fun sync_loop ::
  "env \<Rightarrow> uint64 \<Rightarrow> StoredFinalityProvider list \<Rightarrow> bool \<Rightarrow> FinalityProviderApp \<Rightarrow>
     (error + bool) \<times> FinalityProviderApp" where
  "sync_loop e h [] running app = (Inr running, app)"
| "sync_loop e h (fp # rest) running app =
     (case QueryFinalityProviderVotingPower e (BtcPk fp) h of
        Inl err \<Rightarrow> sync_loop e h rest running app
      | Inr vp \<Rightarrow>
          if IsFinalityProviderRunning (BtcPk fp) app then sync_loop e h rest True app
          else
            (case UpdateFpStatusFromVotingPower vp fp (fps app) of
               Inl err \<Rightarrow> (Inl err, app)
             | Inr (newStatus, st') \<Rightarrow>
                 (let app1 = app\<lparr>fps := st'\<rparr>;
                      fp1 = (if Status fp \<noteq> newStatus then fp\<lparr>Status := newStatus\<rparr> else fp)
                  in if \<not> ShouldStart fp1 then sync_loop e h rest running app1
                     else
                       (case StartFinalityProvider (BtcPk fp) app1 of
                          Inl err \<Rightarrow> (Inl err, app1)
                        | Inr app2 \<Rightarrow> sync_loop e h rest True app2))))"

definition SyncFinalityProviderStatus ::
  "env \<Rightarrow> FinalityProviderApp \<Rightarrow> (error + bool) \<times> FinalityProviderApp" where
  "SyncFinalityProviderStatus e app =
     (case QueryBestBlock e of
        Inl err \<Rightarrow> (Inl err, app)
      | Inr latestBlock \<Rightarrow>
          (case GetAllStoredFinalityProviders e (fps app) of
             Inl err \<Rightarrow> (Inl err, app)
           | Inr stored \<Rightarrow> sync_loop e (Height latestBlock) stored False app))"

subsection \<open>Start and Stop\<close>

text \<open>
  \<^verbatim>\<open>Start\<close> and \<^verbatim>\<open>Stop\<close> run their bodies under a \<^verbatim>\<open>sync.Once\<close> and return a local error
  variable, which only the body assigns. \<^verbatim>\<open>Stop\<close> closes the quit channel and waits for the
  wait-group: every loop returns on quit. The results of stopping the manager and of
  closing the EOTS manager come from the environment.
\<close>

definition Start :: "FinalityProviderApp \<Rightarrow> error option \<times> FinalityProviderApp" where
  "Start app =
     (if startOnce app then (None, app)
      else (None, app\<lparr>startOnce := True, wg := wg app + 4,
                      workers := workers app @
                        [SyncChainFpStatusLoop, EventLoop, RegistrationLoop, MetricsUpdateLoop]\<rparr>))"

definition Stop :: "env \<Rightarrow> FinalityProviderApp \<Rightarrow> error option \<times> FinalityProviderApp" where
  "Stop e app =
     (if stopOnce app then (None, app)
      else
        (let app1 = app\<lparr>stopOnce := True, quit := True, wg := 0, workers := []\<rparr> in
         case fpm_Stop e of
           Some err \<Rightarrow> (Some err, app1)
         | None \<Rightarrow>
             (let app2 = app1\<lparr>fpm_running := None, fpm_stopped := True\<rparr> in
              case em_Close e of
                Some err \<Rightarrow> (Some err, app2)
              | None \<Rightarrow> (None, app2\<lparr>eots_closed := True\<rparr>))))"

subsection \<open>The status-sync loop of the app\<close>

text \<open>
  \<^verbatim>\<open>syncChainFpStatusLoop\<close> waits for its ticker or for the quit channel. The order in
  which the two fire is the list of events; a tick carries what the chain answers at that
  time. The result says whether the loop has returned (its deferred \<^verbatim>\<open>wg.Done\<close> has run)
  or waits for the next event, and how many times it has synced.
\<close>

datatype loop_event = Tick env | QuitSignal

datatype loop_status = Exited | Waiting

definition loop_done :: "FinalityProviderApp \<Rightarrow> FinalityProviderApp" where
  "loop_done app = app\<lparr>wg := wg app - 1, workers := remove1 SyncChainFpStatusLoop (workers app)\<rparr>"

fun syncChainFpStatusLoop ::
  "loop_event list \<Rightarrow> FinalityProviderApp \<Rightarrow> loop_status \<times> nat \<times> FinalityProviderApp" where
  "syncChainFpStatusLoop [] app = (Waiting, 0, app)"
| "syncChainFpStatusLoop (QuitSignal # evs) app = (Exited, 0, loop_done app)"
| "syncChainFpStatusLoop (Tick e # evs) app =
     (case SyncFinalityProviderStatus e app of
        (Inr True, app1) \<Rightarrow> (Exited, 1, loop_done app1)
      | (r, app1) \<Rightarrow>
          (case syncChainFpStatusLoop evs app1 of
             (status, n, app2) \<Rightarrow> (status, Suc n, app2)))"

section \<open>The finality-submission step of an instance\<close>

text \<open>
  Modelled from the spec: the \<^verbatim>\<open>FinalityProviderInstance\<close> is not among the sources; only
  the test \<^verbatim>\<open>FuzzSubmitFinalitySigs\<close> is, which submits one block above the starting
  height and expects \<^verbatim>\<open>GetLastVotedHeight\<close> to be that block's height. Section 4.6 of the
  spec: a submission returns a transaction hash or an error classified as retriable,
  permanent, already submitted or double-sign. The instance's collaborators for one batch
  (section 4.3) are the voting power per height, the stored randomness proofs, the EOTS
  signer, and what the chain answers to the k-th attempt to submit.
\<close>

datatype submit_result =
    TxOk TxResponse
  | ErrAlreadyVoted uint64
  | ErrDoubleSignOnChain uint64
  | ErrRetriable
  | ErrPermanent

record instance_env =
  has_voting_power :: "uint64 \<Rightarrow> bool"
  pub_rand_proof :: "uint64 \<Rightarrow> bytes option"
  SignEOTS :: "uint64 \<Rightarrow> bytes \<Rightarrow> error + bytes"
  SubmitBatchFinalitySigs :: "nat \<Rightarrow> BlockInfo list \<Rightarrow> submit_result"
  max_retries :: nat

datatype submit_outcome =
    Submitted TxResponse
  | NothingToSubmit
  | ProviderNotStored error
  | MissingProof
  | SignerRefused error
  | AdvancedPast uint64
  | RetriesExhausted
  | ChainRejected

text \<open>
  Modelled from the spec: the write of \<^verbatim>\<open>last_voted_height\<close> into the stored record
  (section 3: the field of the record; section 5: the finality-submit task is its single
  writer).
\<close>

definition SetFpLastVotedHeight ::
  "btc_pk \<Rightarrow> uint64 \<Rightarrow> FinalityProviderStore \<Rightarrow> FinalityProviderStore" where
  "SetFpLastVotedHeight pk h st =
     map (\<lambda>f. if BtcPk f = pk then f\<lparr>LastVotedHeight := h\<rparr> else f) st"

text \<open>
  Modelled from the spec: section 4.3, step 2. Blocks at or below \<^verbatim>\<open>last_voted_height\<close>
  and blocks at which the provider has no voting power are skipped.
\<close>

definition blocks_to_sign ::
  "instance_env \<Rightarrow> StoredFinalityProvider \<Rightarrow> BlockInfo list \<Rightarrow> BlockInfo list" where
  "blocks_to_sign ie fp blocks =
     filter (\<lambda>b. LastVotedHeight fp < Height b \<and> has_voting_power ie (Height b)) blocks"

text \<open>
  Modelled from the spec: section 4.3, step 3, \<^verbatim>\<open>max(heights)\<close> of a batch.
\<close>

definition max_height :: "BlockInfo list \<Rightarrow> uint64" where
  "max_height blocks = fold (\<lambda>b m. max (Height b) m) blocks 0"

text \<open>
  Modelled from the spec: section 4.3, step 2, one EOTS signature per block of the batch;
  the signer fails with \<^verbatim>\<open>ErrDoubleSign\<close> on a height it has signed with another message
  (section 4.5).
\<close>

fun sign_all :: "instance_env \<Rightarrow> BlockInfo list \<Rightarrow> error + bytes list" where
  "sign_all ie [] = Inr []"
| "sign_all ie (b # bs) =
     (case SignEOTS ie (Height b) (Hash b) of
        Inl err \<Rightarrow> Inl err
      | Inr sig \<Rightarrow> (case sign_all ie bs of Inl err \<Rightarrow> Inl err | Inr sigs \<Rightarrow> Inr (sig # sigs)))"

text \<open>
  Modelled from the spec: section 4.3, step 5. A retriable error is retried up to
  \<^verbatim>\<open>max_retries\<close> times; \<open>k\<close> counts the attempts made.
\<close>

fun submit_with_retries :: "(nat \<Rightarrow> submit_result) \<Rightarrow> nat \<Rightarrow> nat \<Rightarrow> submit_result" where
  "submit_with_retries submit 0 k = submit k"
| "submit_with_retries submit (Suc n) k =
     (case submit k of
        ErrRetriable \<Rightarrow> submit_with_retries submit n (Suc k)
      | r \<Rightarrow> r)"

text \<open>
  Modelled from the spec: \<^verbatim>\<open>SubmitBatchFinalitySignatures\<close> of the instance, section 4.3,
  steps 2 to 5, and scenario 3 of section 8. A missing proof is a critical error; a
  signer that refuses is logged and the chain is not called; on success
  \<^verbatim>\<open>last_voted_height\<close> becomes the maximum height of the batch; on a chain-reported
  already-voted or double-sign for a height of the batch it advances to that height;
  retries that run out are a critical error. Every other outcome leaves the store as it
  was.
\<close>

definition SubmitBatchFinalitySignatures ::
  "instance_env \<Rightarrow> btc_pk \<Rightarrow> BlockInfo list \<Rightarrow> FinalityProviderStore \<Rightarrow>
     submit_outcome \<times> FinalityProviderStore" where
  "SubmitBatchFinalitySignatures ie pk blocks st =
     (case GetFinalityProvider pk st of
        Inl err \<Rightarrow> (ProviderNotStored err, st)
      | Inr fp \<Rightarrow>
          (let batch = blocks_to_sign ie fp blocks in
           if batch = [] then (NothingToSubmit, st)
           else if list_ex (\<lambda>b. pub_rand_proof ie (Height b) = None) batch then (MissingProof, st)
           else
             (case sign_all ie batch of
                Inl err \<Rightarrow> (SignerRefused err, st)
              | Inr sigs \<Rightarrow>
                  (case submit_with_retries (\<lambda>k. SubmitBatchFinalitySigs ie k batch)
                          (max_retries ie) 0 of
                     TxOk res \<Rightarrow> (Submitted res, SetFpLastVotedHeight pk (max_height batch) st)
                   | ErrAlreadyVoted h \<Rightarrow>
                       if h \<in> set (map Height batch)
                       then (AdvancedPast h, SetFpLastVotedHeight pk h st)
                       else (ChainRejected, st)
                   | ErrDoubleSignOnChain h \<Rightarrow>
                       if h \<in> set (map Height batch)
                       then (AdvancedPast h, SetFpLastVotedHeight pk h st)
                       else (ChainRejected, st)
                   | ErrRetriable \<Rightarrow> (RetriesExhausted, st)
                   | ErrPermanent \<Rightarrow> (ChainRejected, st)))))"

section \<open>Traces of operations\<close>

text \<open>
  The operations that reach the store, each with the environment it runs in: what the
  chain and the signer answer may differ from one operation to the next.
\<close>

datatype app_op =
    OpStart
  | OpStop
  | OpCreate createFinalityProviderRequest
  | OpRegister string
  | OpUnjail btc_pk
  | OpSync
  | OpSubmitBatch instance_env btc_pk "BlockInfo list"

fun step :: "env \<Rightarrow> app_op \<Rightarrow> FinalityProviderApp \<Rightarrow> FinalityProviderApp" where
  "step e OpStart app = snd (Start app)"
| "step e OpStop app = snd (Stop e app)"
| "step e (OpCreate req) app = snd (CreateFinalityProvider e req app)"
| "step e (OpRegister fpPkStr) app = snd (RegisterFinalityProvider e fpPkStr app)"
| "step e (OpUnjail fpPk) app = snd (UnjailFinalityProvider e fpPk app)"
| "step e OpSync app = snd (SyncFinalityProviderStatus e app)"
| "step e (OpSubmitBatch ie pk blocks) app =
     app\<lparr>fps := snd (SubmitBatchFinalitySignatures ie pk blocks (fps app))\<rparr>"

fun run :: "(env \<times> app_op) list \<Rightarrow> FinalityProviderApp \<Rightarrow> FinalityProviderApp" where
  "run [] app = app"
| "run ((e, op) # ops) app = run ops (step e op app)"

text \<open>
  How a store may differ from an earlier one: every stored provider is still stored, a
  SLASHED one is still SLASHED, and no \<^verbatim>\<open>last_voted_height\<close> is lower.
\<close>

definition store_step :: "FinalityProviderStore \<Rightarrow> FinalityProviderStore \<Rightarrow> bool" where
  "store_step st st' \<longleftrightarrow>
     (\<forall>pk fp. GetFinalityProvider pk st = Inr fp \<longrightarrow>
        (\<exists>fp'. GetFinalityProvider pk st' = Inr fp' \<and>
               (Status fp = SLASHED \<longrightarrow> Status fp' = SLASHED) \<and>
               LastVotedHeight fp \<le> LastVotedHeight fp'))"

section \<open>Example values\<close>

text \<open>
  Two keys, a stored record in the shape of \<^verbatim>\<open>GenRandomFinalityProvider\<close> of
  \<^verbatim>\<open>testutil/datagen.go\<close> (chain id \<^verbatim>\<open>chain-test\<close>, zero commission), and a chain that
  answers every call: best block 100, voting power 1, every transaction accepted.
\<close>

definition pkA :: btc_pk where
  "pkA = [0xAA, 0x3C, 0x91, 0x07, 0xE2, 0x5B, 0x48, 0xD0, 0x19, 0x7F, 0xA4, 0x66, 0x02, 0xC8, 0x3D, 0xF1,
          0x50, 0x8E, 0x27, 0xB9, 0x6A, 0x13, 0xDC, 0x45, 0x9F, 0x0B, 0x74, 0xE8, 0x31, 0xC2, 0x5D, 0x86]"

definition pkB :: btc_pk where
  "pkB = [0xBB, 0x3C, 0x91, 0x07, 0xE2, 0x5B, 0x48, 0xD0, 0x19, 0x7F, 0xA4, 0x66, 0x02, 0xC8, 0x3D, 0xF1,
          0x50, 0x8E, 0x27, 0xB9, 0x6A, 0x13, 0xDC, 0x45, 0x9F, 0x0B, 0x74, 0xE8, 0x31, 0xC2, 0x5D, 0x86]"

definition pkA_hex :: string where
  "pkA_hex = ''aa3c9107e25b48d0197fa46602c83df1508e27b96a13dc459f0b74e831c25d86''"

definition pkB_hex :: string where
  "pkB_hex = ''bb3c9107e25b48d0197fa46602c83df1508e27b96a13dc459f0b74e831c25d86''"

definition addr0 :: bytes where
  "addr0 = [0x4E, 0x21, 0xB7, 0x09, 0xD3, 0x68, 0x1A, 0xF5, 0x30, 0x9C,
            0x57, 0xE1, 0x0D, 0x82, 0xBE, 0x43, 0x76, 0x2F, 0xC9, 0x14]"

definition example_fp :: "btc_pk \<Rightarrow> FinalityProviderStatus \<Rightarrow> StoredFinalityProvider" where
  "example_fp pk s =
     \<lparr>FPAddr = ''bbn1qypqxpq9qcrsszg2pvxq6rs0zqg3yyc5'', BtcPk = pk, Description = ''moniker'',
      Commission = 0, ChainID = ''chain-test'', KeyName = ''fp-key'', PopBtcSig = [],
      Status = s, LastVotedHeight = 0\<rparr>"

definition env0 :: env where
  "env0 =
     \<lparr>QueryBestBlock = Inr \<lparr>Height = 100, Hash = []\<rparr>,
      QueryFinalityProviderVotingPower = (\<lambda>pk h. Inr 1),
      cc_RegisterFinalityProvider = (\<lambda>pk pop c d. Inr \<lparr>TxHash = ''0xAB''\<rparr>),
      cc_UnjailFinalityProvider = (\<lambda>pk. Inr \<lparr>TxHash = ''0xDE''\<rparr>),
      SignSchnorrSig = (\<lambda>pk h p. Inr (h @ pk)),
      schnorr_Verify = (\<lambda>pk h sig. sig = h @ pk),
      em_Close = None,
      fpm_Stop = None,
      tmhash_Sum = (\<lambda>b. take 32 (b @ replicate 32 0)),
      NewBIP340PubKeyFromHex =
        (\<lambda>s. if s = pkA_hex then Inr pkA else if s = pkB_hex then Inr pkB
             else Inl ErrInvalidPubKey),
      NewBIP340Signature = (\<lambda>b. Inr b),
      AccAddressFromBech32 = (\<lambda>s. Inr addr0),
      AccAddress_String = (\<lambda>b. ''bbn1qypqxpq9qcrsszg2pvxq6rs0zqg3yyc5''),
      pop_Marshal = (\<lambda>p. Inr (BtcSig p)),
      description_Marshal = (\<lambda>d. Inr []),
      NewChainKeyringControllerWithKeyring = (\<lambda>k. None),
      kr_Address = (\<lambda>k p. Inr addr0),
      db_View = None,
      select_quit = False\<rparr>"

definition started_app :: "FinalityProviderStore \<Rightarrow> FinalityProviderApp" where
  "started_app db = snd (Start (NewFinalityProviderApp db))"

text \<open>
  The instance's collaborators of scenarios 1 and 2 of the spec: randomness proofs are
  stored for the heights 101 to 103, the provider has voting power at every height, the
  signer signs and the chain accepts the first attempt.
\<close>

definition ie0 :: instance_env where
  "ie0 =
     \<lparr>has_voting_power = (\<lambda>h. True),
      pub_rand_proof = (\<lambda>h. if 101 \<le> h \<and> h \<le> 103 then Some [0x5A] else None),
      SignEOTS = (\<lambda>h m. Inr m),
      SubmitBatchFinalitySigs = (\<lambda>k bs. TxOk \<lparr>TxHash = ''0xF1''\<rparr>),
      max_retries = 3\<rparr>"

text \<open>
  A create request for the key \<open>pkA\<close>, and the record that
  \<open>handleCreateFinalityProviderRequest\<close> stores for it in \<open>env0\<close>.
\<close>

definition req0 :: createFinalityProviderRequest where
  "req0 = \<lparr>keyName = ''fp-key'', chainID = ''chain-test'', passPhrase = ''passphrase'',
            hdPath = '''', eotsPk = Some pkA, description = ''moniker'', commission = 0\<rparr>"

definition created_fp :: StoredFinalityProvider where
  "created_fp = (example_fp pkA CREATED)\<lparr>PopBtcSig := tmhash_Sum env0 addr0 @ pkA\<rparr>"

definition block102 :: BlockInfo where
  "block102 = \<lparr>Height = 102, Hash = [0xAB]\<rparr>"

definition ops_submit :: "(env \<times> app_op) list" where
  "ops_submit = [(env0, OpSubmitBatch ie0 pkA [block102])]"

definition ops_later :: "(env \<times> app_op) list" where
  "ops_later =
     [(env0, OpSubmitBatch ie0 pkA [\<lparr>Height = 101, Hash = [0xCD]\<rparr>, \<lparr>Height = 102, Hash = [0xCD]\<rparr>]),
      (env0, OpSync), (env0, OpUnjail pkA)]"


text \<open>
  A chain that reports zero voting power, a chain that rejects the registration, and the
  state and response after \<open>pkA\<close> was registered in \<open>env0\<close>.
\<close>

definition env_vp0 :: env where
  "env_vp0 = env0\<lparr>QueryFinalityProviderVotingPower := (\<lambda>pk h. Inr 0)\<rparr>"

definition env_register_fails :: env where
  "env_register_fails =
     env0\<lparr>cc_RegisterFinalityProvider := (\<lambda>pk pop c d. Inl (ErrChain ''insufficient funds''))\<rparr>"

definition registered_app :: FinalityProviderApp where
  "registered_app = (started_app [example_fp pkA REGISTERED])\<lparr>cc_log := [SubmitRegister pkA]\<rparr>"

definition registered_response :: RegisterFinalityProviderResponse where
  "registered_response = \<lparr>resp_bbnAddress = addr0, resp_btcPubKey = pkA, resp_TxHash = ''0xAB''\<rparr>"

definition registered_event :: finalityProviderRegisteredEvent where
  "registered_event = \<lparr>ev_bbnAddress = addr0, ev_btcPubKey = pkA, ev_txHash = ''0xAB''\<rparr>"

text \<open>
  A second create request for the same EOTS key under another key name, a signer that does
  not know the key, and an EOTS manager whose connection fails to close.
\<close>

definition req0_again :: createFinalityProviderRequest where
  "req0_again = req0\<lparr>keyName := ''other-key'', description := ''other moniker''\<rparr>"

definition env_sign_fails :: env where
  "env_sign_fails = env0\<lparr>SignSchnorrSig := (\<lambda>pk h p. Inl (ErrEOTS ''key not found''))\<rparr>"

definition env_close_fails :: env where
  "env_close_fails = env0\<lparr>em_Close := Some (ErrEOTS ''connection is closing'')\<rparr>"

text \<open>
  A chain whose voting-power query fails for \<open>pkA\<close> and answers 1 for every other key.
\<close>

definition env_vp_fails :: env where
  "env_vp_fails =
     env0\<lparr>QueryFinalityProviderVotingPower :=
            (\<lambda>pk h. if pk = pkA then Inl (ErrChain ''rpc timeout'') else Inr 1)\<rparr>"

text \<open>A backend that fails the read of the bucket.\<close>

definition env_read_fails :: env where
  "env_read_fails = env0\<lparr>db_View := Some (ErrDatabase ''database not open'')\<rparr>"

text \<open>A chain whose best-block query fails.\<close>

definition env_best_block_fails :: env where
  "env_best_block_fails = env0\<lparr>QueryBestBlock := Inl (ErrChain ''node is catching up'')\<rparr>"

text \<open>
  Events of the status-sync loop: a tick on which the chain reports zero voting power, a
  tick on which it reports voting power 1, one more tick, and the quit signal.
\<close>

definition loop_events :: "loop_event list" where
  "loop_events = [Tick env_vp0, Tick env0, Tick env0, QuitSignal]"

text \<open>
  A corrupted bucket: a second record under the key of a SLASHED provider (section 7 of
  the spec counts storage corruption among the invariant violations).
\<close>

definition corrupted_app :: FinalityProviderApp where
  "corrupted_app = started_app [example_fp pkA SLASHED, example_fp pkA REGISTERED]"

section \<open>Lemmas on the store and on traces\<close>

lemma Get_map_status:
  "GetFinalityProvider pk (map (\<lambda>f. if BtcPk f = pk' then f\<lparr>Status := s\<rparr> else f) st) =
     (case GetFinalityProvider pk st of
        Inl e \<Rightarrow> Inl e
      | Inr fp \<Rightarrow> Inr (if pk = pk' then fp\<lparr>Status := s\<rparr> else fp))"
  by (induction st) (auto simp: GetFinalityProvider_def)

lemma Get_map_lvh:
  "GetFinalityProvider pk (SetFpLastVotedHeight pk' h st) =
     (case GetFinalityProvider pk st of
        Inl e \<Rightarrow> Inl e
      | Inr fp \<Rightarrow> Inr (if pk = pk' then fp\<lparr>LastVotedHeight := h\<rparr> else fp))"
  by (induction st) (auto simp: GetFinalityProvider_def SetFpLastVotedHeight_def)

lemma Get_BtcPk: "GetFinalityProvider pk st = Inr fp \<Longrightarrow> BtcPk fp = pk"
  by (auto simp: GetFinalityProvider_def split: option.splits dest: find_Some_iff[THEN iffD1])

lemma Get_append_new:
  "pk' \<notin> set (map BtcPk st) \<Longrightarrow> BtcPk new = pk' \<Longrightarrow>
   GetFinalityProvider pk (st @ [new]) =
     (case GetFinalityProvider pk st of Inr fp \<Rightarrow> Inr fp
      | Inl e \<Rightarrow> if pk = pk' then Inr new else Inl ErrFinalityProviderNotFound)"
  by (induction st) (auto simp: GetFinalityProvider_def)

lemma Get_Inl_iff: "(\<exists>e. GetFinalityProvider pk st = Inl e) \<longleftrightarrow> pk \<notin> set (map BtcPk st)"
  by (induction st) (auto simp: GetFinalityProvider_def)

lemma store_step_refl: "store_step st st"
  by (simp add: store_step_def)

lemma store_step_trans: "store_step a b \<Longrightarrow> store_step b c \<Longrightarrow> store_step a c"
  unfolding store_step_def by (meson order_trans)

lemma SetFpStatus_step: "SetFpStatus pk s st = Inr st' \<Longrightarrow> store_step st st'"
  unfolding store_step_def SetFpStatus_def
  by (auto simp: Get_map_status split: sum.splits if_splits dest: Get_BtcPk)

lemma SetFpLastVotedHeight_step:
  "GetFinalityProvider pk st = Inr fp \<Longrightarrow> LastVotedHeight fp \<le> h \<Longrightarrow>
   store_step st (SetFpLastVotedHeight pk h st)"
  unfolding store_step_def
  by (auto simp: Get_map_lvh split: sum.splits if_splits)

lemma Create_step:
  "fps_CreateFinalityProvider a pk d c k ch sg st = Inr st' \<Longrightarrow> store_step st st'"
  unfolding store_step_def fps_CreateFinalityProvider_def
  by (auto simp: Get_append_new split: sum.splits if_splits)

lemma UpdateFp_step:
  "UpdateFpStatusFromVotingPower vp fp st = Inr (s, st') \<Longrightarrow> store_step st st'"
  unfolding UpdateFpStatusFromVotingPower_def
  by (auto simp: store_step_refl split: if_splits sum.splits dest: SetFpStatus_step)


lemma fold_max_height_ge:
  "m \<le> fold (\<lambda>b m. max (Height b) m) bs m \<and>
   (\<forall>b \<in> set bs. Height b \<le> fold (\<lambda>b m. max (Height b) m) bs (m::uint64))"
proof (induction bs arbitrary: m)
  case Nil
  then show ?case by simp
next
  case (Cons a bs)
  have 1: "max (Height a) m \<le> fold (\<lambda>b m. max (Height b) m) bs (max (Height a) m)"
    using Cons.IH by blast
  have 2: "\<forall>b \<in> set bs. Height b \<le> fold (\<lambda>b m. max (Height b) m) bs (max (Height a) m)"
    using Cons.IH by blast
  from 1 2 show ?case by (auto simp: max_def split: if_splits)
qed

lemma max_height_ge: "b \<in> set bs \<Longrightarrow> Height b \<le> max_height bs"
  using fold_max_height_ge[of 0 bs] by (simp add: max_height_def)

lemma blocks_to_sign_above:
  "b \<in> set (blocks_to_sign ie fp blocks) \<Longrightarrow> LastVotedHeight fp < Height b"
  by (simp add: blocks_to_sign_def)

lemma SubmitBatch_step:
  "store_step st (snd (SubmitBatchFinalitySignatures ie pk blocks st))"
proof (cases "GetFinalityProvider pk st")
  case (Inl e)
  then show ?thesis by (simp add: SubmitBatchFinalitySignatures_def store_step_refl)
next
  case (Inr fp)
  let ?batch = "blocks_to_sign ie fp blocks"
  have adv: "store_step st (SetFpLastVotedHeight pk h st)" if "h \<in> set (map Height ?batch)" for h
  proof -
    from that obtain b where "b \<in> set ?batch" "Height b = h" by auto
    then have "LastVotedHeight fp \<le> h" using blocks_to_sign_above[of b ie fp blocks] by auto
    with Inr show ?thesis by (rule SetFpLastVotedHeight_step)
  qed
  have mx: "store_step st (SetFpLastVotedHeight pk (max_height ?batch) st)" if "?batch \<noteq> []"
  proof -
    from that obtain b where b: "b \<in> set ?batch" by (cases ?batch) auto
    have "LastVotedHeight fp < Height b" using b by (rule blocks_to_sign_above)
    moreover have "Height b \<le> max_height ?batch" using b by (rule max_height_ge)
    ultimately have "LastVotedHeight fp \<le> max_height ?batch" by simp
    with Inr show ?thesis by (rule SetFpLastVotedHeight_step)
  qed
  show ?thesis
    using Inr adv mx
    by (auto simp: SubmitBatchFinalitySignatures_def Let_def store_step_refl
             split: sum.splits submit_result.splits)
qed

lemma handleCreate_step:
  "store_step (fps app) (fps (snd (handleCreateFinalityProviderRequest e req app)))"
  by (auto simp: handleCreateFinalityProviderRequest_def store_step_refl
           split: option.splits sum.splits dest: Create_step)

lemma Create_op_step:
  "store_step (fps app) (fps (snd (CreateFinalityProvider e req app)))"
  using handleCreate_step[of app e req]
  by (auto simp: CreateFinalityProvider_def store_step_refl split: prod.splits)

lemma registrationLoop_fps:
  "fps (snd (registrationLoop_request e req app)) = fps app"
  by (auto simp: registrationLoop_request_def Let_def split: sum.splits)

lemma eventLoop_step:
  "store_step (fps app) (fps (snd (eventLoop_registered ev app)))"
  by (auto simp: eventLoop_registered_def store_step_refl split: sum.splits dest: SetFpStatus_step)

lemma registrationLoop_fps':
  "registrationLoop_request e req app = (r, app1) \<Longrightarrow> fps app1 = fps app"
  by (auto simp: registrationLoop_request_def Let_def split: sum.splits)

lemma eventLoop_step':
  "eventLoop_registered ev app1 = (r, app2) \<Longrightarrow> store_step (fps app1) (fps app2)"
  by (auto simp: eventLoop_registered_def store_step_refl split: sum.splits dest: SetFpStatus_step)

lemma Register_step:
  "store_step (fps app) (fps (snd (RegisterFinalityProvider e s app)))"
  unfolding RegisterFinalityProvider_def Let_def
  by (auto simp: store_step_refl split: sum.split prod.split call.split
       dest!: registrationLoop_fps' eventLoop_step')

lemma Unjail_step:
  "store_step (fps app) (fps (snd (UnjailFinalityProvider e pk app)))"
  by (auto simp: UnjailFinalityProvider_def Let_def store_step_refl
           split: sum.splits dest: SetFpStatus_step)

lemma Start_fps: "StartFinalityProvider pk app = Inr app' \<Longrightarrow> fps app' = fps app"
  by (auto simp: StartFinalityProvider_def split: option.splits)

lemma sync_loop_step:
  "store_step (fps app) (fps (snd (sync_loop e h stored running app)))"
proof (induction stored arbitrary: running app)
  case Nil
  then show ?case by (simp add: store_step_refl)
next
  case (Cons fp rest)
  show ?case
  proof (cases "QueryFinalityProviderVotingPower e (BtcPk fp) h")
    case (Inl err)
    then show ?thesis using Cons.IH by simp
  next
    case (Inr vp)
    show ?thesis
    proof (cases "IsFinalityProviderRunning (BtcPk fp) app")
      case True
      then show ?thesis using Inr Cons.IH by simp
    next
      case False
      show ?thesis
      proof (cases "UpdateFpStatusFromVotingPower vp fp (fps app)")
        case (Inl err)
        then show ?thesis using Inr False by (simp add: store_step_refl)
      next
        case upd: (Inr p)
        obtain newStatus st' where p: "p = (newStatus, st')" by (cases p)
        have s1: "store_step (fps app) st'" using upd p by (auto dest: UpdateFp_step)
        let ?app1 = "app\<lparr>fps := st'\<rparr>"
        let ?fp1 = "if Status fp \<noteq> newStatus then fp\<lparr>Status := newStatus\<rparr> else fp"
        show ?thesis
        proof (cases "ShouldStart ?fp1")
          case no: False
          have "store_step st' (fps (snd (sync_loop e h rest running ?app1)))"
            using Cons.IH[of ?app1 running] by simp
          then show ?thesis using Inr False upd p no s1
            by (simp add: Let_def) (metis store_step_trans)
        next
          case yes: True
          show ?thesis
          proof (cases "StartFinalityProvider (BtcPk fp) ?app1")
            case (Inl err)
            then show ?thesis using Inr False upd p yes s1 by (simp add: Let_def)
          next
            case st: (Inr app2)
            have "fps app2 = st'" using Start_fps[OF st] by simp
            then have "store_step st' (fps (snd (sync_loop e h rest True app2)))"
              using Cons.IH[of app2 True] by simp
            then show ?thesis using Inr False upd p yes s1 st
              by (simp add: Let_def) (metis store_step_trans)
          qed
        qed
      qed
    qed
  qed
qed

lemma Sync_step:
  "store_step (fps app) (fps (snd (SyncFinalityProviderStatus e app)))"
  by (simp add: SyncFinalityProviderStatus_def GetAllStoredFinalityProviders_def
        store_step_refl sync_loop_step split: sum.split option.split)

lemma Start_app_fps: "fps (snd (Start app)) = fps app"
  by (simp add: Start_def)

lemma Stop_app_fps: "fps (snd (Stop e app)) = fps app"
  by (simp add: Stop_def Let_def split: option.split)

lemma step_store_step: "store_step (fps app) (fps (step e op app))"
  by (cases op)
     (simp_all add: Start_app_fps Stop_app_fps store_step_refl Create_op_step Register_step
        Unjail_step Sync_step SubmitBatch_step)

lemma run_store_step: "store_step (fps app) (fps (run ops app))"
proof (induction ops arbitrary: app)
  case Nil
  then show ?case by (simp add: store_step_refl)
next
  case (Cons a ops)
  obtain e op where a: "a = (e, op)" by (cases a)
  show ?case using Cons.IH[of "step e op app"] step_store_step[of app e op] a
    by (simp add: store_step_trans)
qed

lemma pk_distinct [simp]: "pkA \<noteq> pkB" "pkB \<noteq> pkA"
  by (simp_all add: pkA_def pkB_def)

lemma pk_hex_distinct [simp]: "pkA_hex \<noteq> pkB_hex" "pkB_hex \<noteq> pkA_hex"
  by (simp_all add: pkA_hex_def pkB_hex_def)

lemma Get_not_stored:
  "pk \<notin> set (map BtcPk st) \<Longrightarrow> GetFinalityProvider pk st = Inl ErrFinalityProviderNotFound"
  by (induction st) (auto simp: GetFinalityProvider_def)

lemma Create_get_new:
  "fps_CreateFinalityProvider a pk d c k ch sg st = Inr st' \<Longrightarrow>
   GetFinalityProvider pk st' =
     Inr \<lparr>FPAddr = a, BtcPk = pk, Description = d, Commission = c, ChainID = ch, KeyName = k,
          PopBtcSig = sg, Status = CREATED, LastVotedHeight = 0\<rparr>"
  by (auto simp: fps_CreateFinalityProvider_def Get_append_new Get_not_stored split: if_splits)

lemma handleCreate_new:
  assumes "handleCreateFinalityProviderRequest e req app = (Inr fp0, app0)"
  shows "GetFinalityProvider (BtcPk fp0) (fps app0) = Inr fp0 \<and> Status fp0 = CREATED \<and>
         LastVotedHeight fp0 = 0 \<and> eotsPk req = Some (BtcPk fp0)"
  using assms
  by (auto simp: handleCreateFinalityProviderRequest_def
           split: option.splits sum.splits dest!: Create_get_new)

lemma run_append: "run (ops1 @ ops2) app = run ops2 (run ops1 app)"
  by (induction ops1 arbitrary: app) auto

lemma blocks_to_sign_max:
  assumes "blocks_to_sign ie fp blocks \<noteq> []"
  shows "LastVotedHeight fp < max_height (blocks_to_sign ie fp blocks)"
proof -
  from assms obtain b where b: "b \<in> set (blocks_to_sign ie fp blocks)"
    by (cases "blocks_to_sign ie fp blocks") auto
  have "LastVotedHeight fp < Height b" using b by (rule blocks_to_sign_above)
  moreover have "Height b \<le> max_height (blocks_to_sign ie fp blocks)" using b by (rule max_height_ge)
  ultimately show ?thesis by simp
qed

lemma Submitted_height:
  assumes "GetFinalityProvider pk st = Inr fp"
    and "SubmitBatchFinalitySignatures ie pk blocks st = (Submitted res, st')"
  shows "GetFinalityProvider pk st' =
           Inr (fp\<lparr>LastVotedHeight := max_height (blocks_to_sign ie fp blocks)\<rparr>) \<and>
         LastVotedHeight fp < max_height (blocks_to_sign ie fp blocks)"
  using assms blocks_to_sign_max[of ie fp blocks]
  by (auto simp: SubmitBatchFinalitySignatures_def Let_def Get_map_lvh
           split: sum.splits submit_result.splits if_splits)

lemmas app_defs = started_app_def Start_def NewFinalityProviderApp_def GetFinalityProvider_def
  example_fp_def env0_def SyncFinalityProviderStatus_def GetAllStoredFinalityProviders_def
  IsFinalityProviderRunning_def UpdateFpStatusFromVotingPower_def ShouldStart_def
  StartFinalityProvider_def UnjailFinalityProvider_def SetFpStatus_def Let_def

lemma SetFpStatus_get:
  "SetFpStatus pk s st = Inr st' \<Longrightarrow>
   \<exists>fp. GetFinalityProvider pk st = Inr fp \<and> GetFinalityProvider pk st' = Inr (fp\<lparr>Status := s\<rparr>)"
  by (auto simp: SetFpStatus_def Get_map_status split: sum.splits if_splits)



lemma Register_success_path:
  assumes "RegisterFinalityProvider e s app = (r, app')"
    and "fps app' \<noteq> fps app \<or> (\<exists>resp. r = Returns (Inr resp))"
  shows "\<exists>pk fp fpAddr popBytes desBytes res.
           NewBIP340PubKeyFromHex e s = Inr pk \<and>
           GetFinalityProvider pk (fps app) = Inr fp \<and> Status fp = CREATED \<and>
           AccAddressFromBech32 e (FPAddr fp) = Inr fpAddr \<and>
           cc_RegisterFinalityProvider e pk popBytes (Commission fp) desBytes = Inr res \<and>
           SetFpStatus pk REGISTERED (fps app) = Inr (fps app') \<and>
           cc_log app' = cc_log app @ [SubmitRegister pk] \<and>
           (r = Returns (Inr \<lparr>resp_bbnAddress = fpAddr, resp_btcPubKey = pk,
                               resp_TxHash = TxHash res\<rparr>) \<or>
            r = Returns (Inl ErrShuttingDown))"
  using assms
  by (auto simp: RegisterFinalityProvider_def Let_def select_reply_def
        registrationLoop_request_def eventLoop_registered_def
        split: sum.splits if_splits)
     (frule Get_BtcPk, fastforce)+


lemmas register_defs = RegisterFinalityProvider_def select_reply_def
  registrationLoop_request_def eventLoop_registered_def

lemma Get_stored_key: "GetFinalityProvider pk st = Inr fp \<Longrightarrow> pk \<in> set (map BtcPk st)"
  using Get_Inl_iff[of pk st] Get_not_stored[of pk st] by auto

lemma handleCreate_duplicate:
  assumes "GetFinalityProvider pk (fps app) = Inr fp" and "eotsPk req = Some pk"
  shows "\<exists>err. handleCreateFinalityProviderRequest e req app = (Inl err, app)"
  using assms Get_stored_key[OF assms(1)]
  by (auto simp: handleCreateFinalityProviderRequest_def fps_CreateFinalityProvider_def
           split: option.splits sum.splits)

lemma handleCreate_workers:
  "workers (snd (handleCreateFinalityProviderRequest e req app)) = workers app"
  by (auto simp: handleCreateFinalityProviderRequest_def split: option.splits sum.splits)

lemma sync_loop_skip:
  assumes "QueryFinalityProviderVotingPower e (BtcPk fp) h = Inl err"
  shows "sync_loop e h (pre @ fp # post) running app = sync_loop e h (pre @ post) running app"
proof (induction pre arbitrary: running app)
  case Nil
  then show ?case using assms by simp
next
  case (Cons a pre)
  show ?case
    by (simp add: Cons.IH Let_def split: sum.split prod.split)
qed

lemma SetFpStatus_other:
  "SetFpStatus pk' s st = Inr st' \<Longrightarrow> pk \<noteq> pk' \<Longrightarrow>
   GetFinalityProvider pk st' = GetFinalityProvider pk st"
  by (auto simp: SetFpStatus_def Get_map_status split: sum.splits if_splits)

lemma UpdateFp_other:
  "UpdateFpStatusFromVotingPower vp fp st = Inr (s, st') \<Longrightarrow> pk \<noteq> BtcPk fp \<Longrightarrow>
   GetFinalityProvider pk st' = GetFinalityProvider pk st"
  by (auto simp: UpdateFpStatusFromVotingPower_def split: if_splits sum.splits
           dest: SetFpStatus_other)

lemma Start_running:
  "StartFinalityProvider pk' app = Inr app' \<Longrightarrow> fpm_running app' = Some pk' \<and> fps app' = fps app"
  by (auto simp: StartFinalityProvider_def split: option.splits)

lemma sync_loop_untouched:
  assumes "QueryFinalityProviderVotingPower e pk h = Inl err"
  shows "GetFinalityProvider pk (fps (snd (sync_loop e h stored running app))) =
           GetFinalityProvider pk (fps app) \<and>
         (fpm_running (snd (sync_loop e h stored running app)) = Some pk \<longrightarrow>
            fpm_running app = Some pk)"
proof (induction stored arbitrary: running app)
  case Nil
  then show ?case by simp
next
  case (Cons fp rest)
  show ?case
  proof (cases "QueryFinalityProviderVotingPower e (BtcPk fp) h")
    case (Inl err')
    then show ?thesis using Cons.IH by simp
  next
    case (Inr vp)
    then have ne: "pk \<noteq> BtcPk fp" using assms by auto
    show ?thesis
    proof (cases "IsFinalityProviderRunning (BtcPk fp) app")
      case True
      then show ?thesis using Inr Cons.IH by simp
    next
      case False
      show ?thesis
      proof (cases "UpdateFpStatusFromVotingPower vp fp (fps app)")
        case (Inl err')
        then show ?thesis using Inr False by simp
      next
        case upd: (Inr p)
        obtain newStatus st' where p: "p = (newStatus, st')" by (cases p)
        have g1: "GetFinalityProvider pk st' = GetFinalityProvider pk (fps app)"
          using upd p ne by (auto dest: UpdateFp_other)
        let ?app1 = "app\<lparr>fps := st'\<rparr>"
        let ?fp1 = "if Status fp \<noteq> newStatus then fp\<lparr>Status := newStatus\<rparr> else fp"
        show ?thesis
        proof (cases "ShouldStart ?fp1")
          case no: False
          show ?thesis using Inr False upd p no g1 Cons.IH[of running ?app1]
            by (simp add: Let_def)
        next
          case yes: True
          show ?thesis
          proof (cases "StartFinalityProvider (BtcPk fp) ?app1")
            case (Inl err')
            then show ?thesis using Inr False upd p yes g1 by (simp add: Let_def)
          next
            case st: (Inr app2)
            from Start_running[OF st] have r2: "fpm_running app2 = Some (BtcPk fp)"
              and f2: "fps app2 = st'" by simp_all
            show ?thesis using Inr False upd p yes st g1 r2 f2 ne Cons.IH[of True app2]
              by (simp add: Let_def)
          qed
        qed
      qed
    qed
  qed
qed

lemma sync_loop_append:
  "sync_loop e h (pre @ post) running app =
     (case sync_loop e h pre running app of
        (Inl err, app1) \<Rightarrow> (Inl err, app1)
      | (Inr running1, app1) \<Rightarrow> sync_loop e h post running1 app1)"
proof (induction pre arbitrary: running app)
  case Nil
  then show ?case by simp
next
  case (Cons fp pre)
  show ?case
    by (simp add: Cons.IH Let_def split: sum.split prod.split)
qed

lemma sync_loop_snoc:
  assumes "sync_loop e h pre running app = (Inr running1, app1)"
  shows "sync_loop e h (pre @ fp # post) running app = sync_loop e h (fp # post) running1 app1"
  using assms by (simp add: sync_loop_append)

lemma sync_loop_error_run:
  assumes "sync_loop e h stored running app = (Inl err, app')"
  shows "\<exists>pre fp post running1 app1 vp.
           stored = pre @ fp # post \<and>
           sync_loop e h pre running app = (Inr running1, app1) \<and>
           QueryFinalityProviderVotingPower e (BtcPk fp) h = Inr vp \<and>
           \<not> IsFinalityProviderRunning (BtcPk fp) app1 \<and>
           (UpdateFpStatusFromVotingPower vp fp (fps app1) = Inl err \<and> app' = app1 \<or>
            (\<exists>newStatus st'.
               UpdateFpStatusFromVotingPower vp fp (fps app1) = Inr (newStatus, st') \<and>
               ShouldStart (if Status fp \<noteq> newStatus then fp\<lparr>Status := newStatus\<rparr> else fp) \<and>
               StartFinalityProvider (BtcPk fp) (app1\<lparr>fps := st'\<rparr>) = Inl err \<and>
               app' = app1\<lparr>fps := st'\<rparr>))"
  using assms
proof (induction stored arbitrary: running app)
  case Nil
  then show ?case by simp
next
  case (Cons fp rest)
  let ?Q = "\<lambda>pre f post running1 app1 vp.
           sync_loop e h pre running app = (Inr running1, app1) \<and>
           QueryFinalityProviderVotingPower e (BtcPk f) h = Inr vp \<and>
           \<not> IsFinalityProviderRunning (BtcPk f) app1 \<and>
           (UpdateFpStatusFromVotingPower vp f (fps app1) = Inl err \<and> app' = app1 \<or>
            (\<exists>newStatus st'.
               UpdateFpStatusFromVotingPower vp f (fps app1) = Inr (newStatus, st') \<and>
               ShouldStart (if Status f \<noteq> newStatus then f\<lparr>Status := newStatus\<rparr> else f) \<and>
               StartFinalityProvider (BtcPk f) (app1\<lparr>fps := st'\<rparr>) = Inl err \<and>
               app' = app1\<lparr>fps := st'\<rparr>))"
  have later: "\<exists>pre f post running1 app1 vp. fp # rest = pre @ f # post \<and> ?Q pre f post running1 app1 vp"
    if step: "sync_loop e h [fp] running app = (Inr r2, a2)"
      and rest: "sync_loop e h rest r2 a2 = (Inl err, app')" for r2 a2
  proof -
    from Cons.IH[OF rest] obtain pre f post running1 app1 vp where
      sp: "rest = pre @ f # post"
      and run: "sync_loop e h pre r2 a2 = (Inr running1, app1)"
      and q: "QueryFinalityProviderVotingPower e (BtcPk f) h = Inr vp"
      and nr: "\<not> IsFinalityProviderRunning (BtcPk f) app1"
      and fail: "UpdateFpStatusFromVotingPower vp f (fps app1) = Inl err \<and> app' = app1 \<or>
            (\<exists>newStatus st'.
               UpdateFpStatusFromVotingPower vp f (fps app1) = Inr (newStatus, st') \<and>
               ShouldStart (if Status f \<noteq> newStatus then f\<lparr>Status := newStatus\<rparr> else f) \<and>
               StartFinalityProvider (BtcPk f) (app1\<lparr>fps := st'\<rparr>) = Inl err \<and>
               app' = app1\<lparr>fps := st'\<rparr>)"
      by blast
    have "sync_loop e h (fp # pre) running app = (Inr running1, app1)"
      using sync_loop_append[of e h "[fp]" pre running app] step run by simp
    moreover have "fp # rest = (fp # pre) @ f # post" using sp by simp
    ultimately show ?thesis using q nr fail by blast
  qed
  have split: "sync_loop e h (fp # rest) running app =
     (case sync_loop e h [fp] running app of
        (Inl err, app1) \<Rightarrow> (Inl err, app1)
      | (Inr running1, app1) \<Rightarrow> sync_loop e h rest running1 app1)"
    using sync_loop_append[of e h "[fp]" rest running app] by simp
  obtain r1 a1 where one: "sync_loop e h [fp] running app = (r1, a1)"
    by (cases "sync_loop e h [fp] running app")
  show ?case
  proof (cases r1)
    case (Inr r2)
    then have "sync_loop e h rest r2 a1 = (Inl err, app')"
      using split one Cons.prems by simp
    from later[OF one[unfolded Inr] this] show ?thesis .
  next
    case (Inl err1)
    then have e1: "err1 = err" and a1: "a1 = app'"
      using split one Cons.prems by simp_all
    have now: "sync_loop e h [fp] running app = (Inl err, app')"
      using one Inl e1 a1 by simp
    have "\<exists>vp. QueryFinalityProviderVotingPower e (BtcPk fp) h = Inr vp \<and>
           \<not> IsFinalityProviderRunning (BtcPk fp) app \<and>
           (UpdateFpStatusFromVotingPower vp fp (fps app) = Inl err \<and> app' = app \<or>
            (\<exists>newStatus st'.
               UpdateFpStatusFromVotingPower vp fp (fps app) = Inr (newStatus, st') \<and>
               ShouldStart (if Status fp \<noteq> newStatus then fp\<lparr>Status := newStatus\<rparr> else fp) \<and>
               StartFinalityProvider (BtcPk fp) (app\<lparr>fps := st'\<rparr>) = Inl err \<and>
               app' = app\<lparr>fps := st'\<rparr>))"
      using now by (auto simp: Let_def split: sum.splits if_splits)
    then obtain vp where
      "QueryFinalityProviderVotingPower e (BtcPk fp) h = Inr vp"
      "\<not> IsFinalityProviderRunning (BtcPk fp) app"
      "UpdateFpStatusFromVotingPower vp fp (fps app) = Inl err \<and> app' = app \<or>
            (\<exists>newStatus st'.
               UpdateFpStatusFromVotingPower vp fp (fps app) = Inr (newStatus, st') \<and>
               ShouldStart (if Status fp \<noteq> newStatus then fp\<lparr>Status := newStatus\<rparr> else fp) \<and>
               StartFinalityProvider (BtcPk fp) (app\<lparr>fps := st'\<rparr>) = Inl err \<and>
               app' = app\<lparr>fps := st'\<rparr>)"
      by blast
    moreover have "sync_loop e h [] running app = (Inr running, app)" by simp
    moreover have "fp # rest = [] @ fp # rest" by simp
    ultimately show ?thesis by blast
  qed
qed

lemma loop_exited_append:
  "syncChainFpStatusLoop evs1 app = (Exited, n, app1) \<Longrightarrow>
   syncChainFpStatusLoop (evs1 @ evs2) app = (Exited, n, app1)"
proof (induction evs1 app arbitrary: n app1 rule: syncChainFpStatusLoop.induct)
  case (1 app)
  then show ?case by simp
next
  case (2 evs app)
  then show ?case by simp
next
  case (3 e evs app)
  obtain r a1 where s: "SyncFinalityProviderStatus e app = (r, a1)"
    by (cases "SyncFinalityProviderStatus e app")
  show ?case
  proof (cases "r = Inr True")
    case True
    then show ?thesis using s "3.prems" by simp
  next
    case False
    obtain st k a2 where l: "syncChainFpStatusLoop evs a1 = (st, k, a2)"
      by (cases "syncChainFpStatusLoop evs a1") auto
    have c: "syncChainFpStatusLoop (Tick e # evs) app = (st, Suc k, a2)"
      using s False l by (auto split: sum.splits bool.splits)
    with "3.prems" have "st = Exited" "n = Suc k" "app1 = a2" by simp_all
    have ih: "syncChainFpStatusLoop (evs @ evs2) a1 = (Exited, k, a2)"
    proof (cases r)
      case (Inl x)
      show ?thesis
        using "3.IH"(1)[OF s[symmetric] Inl, of k a2] l \<open>st = Exited\<close> by simp
    next
      case (Inr x2)
      with False have x2: "\<not> x2" by simp
      show ?thesis
        using "3.IH"(2)[OF s[symmetric] Inr, of k a2] x2 l \<open>st = Exited\<close> by simp
    qed
    show ?thesis
      using s False ih \<open>n = Suc k\<close> \<open>app1 = a2\<close> by (auto split: sum.splits bool.splits)
  qed
qed


lemma Sync_error_iff:
  "SyncFinalityProviderStatus e app = (Inl err2, app') \<longleftrightarrow>
      (QueryBestBlock e = Inl err2 \<and> app' = app) \<or>
      (\<exists>b. QueryBestBlock e = Inr b \<and>
         (GetAllStoredFinalityProviders e (fps app) = Inl err2 \<and> app' = app \<or>
          (\<exists>pre fp post running1 app1 vp.
             GetAllStoredFinalityProviders e (fps app) = Inr (pre @ fp # post) \<and>
             sync_loop e (Height b) pre False app = (Inr running1, app1) \<and>
             QueryFinalityProviderVotingPower e (BtcPk fp) (Height b) = Inr vp \<and>
             \<not> IsFinalityProviderRunning (BtcPk fp) app1 \<and>
             (UpdateFpStatusFromVotingPower vp fp (fps app1) = Inl err2 \<and> app' = app1 \<or>
              (\<exists>newStatus st'.
                 UpdateFpStatusFromVotingPower vp fp (fps app1) = Inr (newStatus, st') \<and>
                 ShouldStart (if Status fp \<noteq> newStatus then fp\<lparr>Status := newStatus\<rparr> else fp) \<and>
                 StartFinalityProvider (BtcPk fp) (app1\<lparr>fps := st'\<rparr>) = Inl err2 \<and>
                 app' = app1\<lparr>fps := st'\<rparr>)))))"
  (is "?L \<longleftrightarrow> ?B \<or> ?R")
proof
  assume l: ?L
  show "?B \<or> ?R"
  proof (cases "QueryBestBlock e")
    case (Inl x)
    then show ?thesis using l by (simp add: SyncFinalityProviderStatus_def)
  next
    case b: (Inr b)
    show ?thesis
    proof (cases "GetAllStoredFinalityProviders e (fps app)")
      case (Inl x)
      then show ?thesis using l b by (simp add: SyncFinalityProviderStatus_def)
    next
      case (Inr stored)
      then have "sync_loop e (Height b) stored False app = (Inl err2, app')"
        using l b by (simp add: SyncFinalityProviderStatus_def)
      from sync_loop_error_run[OF this] Inr b show ?thesis by blast
    qed
  qed
next
  assume "?B \<or> ?R"
  then show ?L
  proof
    assume ?B
    then show ?L by (simp add: SyncFinalityProviderStatus_def)
  next
    assume ?R
    then obtain b where b: "QueryBestBlock e = Inr b"
      and r: "GetAllStoredFinalityProviders e (fps app) = Inl err2 \<and> app' = app \<or>
          (\<exists>pre fp post running1 app1 vp.
             GetAllStoredFinalityProviders e (fps app) = Inr (pre @ fp # post) \<and>
             sync_loop e (Height b) pre False app = (Inr running1, app1) \<and>
             QueryFinalityProviderVotingPower e (BtcPk fp) (Height b) = Inr vp \<and>
             \<not> IsFinalityProviderRunning (BtcPk fp) app1 \<and>
             (UpdateFpStatusFromVotingPower vp fp (fps app1) = Inl err2 \<and> app' = app1 \<or>
              (\<exists>newStatus st'.
                 UpdateFpStatusFromVotingPower vp fp (fps app1) = Inr (newStatus, st') \<and>
                 ShouldStart (if Status fp \<noteq> newStatus then fp\<lparr>Status := newStatus\<rparr> else fp) \<and>
                 StartFinalityProvider (BtcPk fp) (app1\<lparr>fps := st'\<rparr>) = Inl err2 \<and>
                 app' = app1\<lparr>fps := st'\<rparr>)))"
      by blast
    from r show ?L
    proof
      assume "GetAllStoredFinalityProviders e (fps app) = Inl err2 \<and> app' = app"
      then show ?L using b by (simp add: SyncFinalityProviderStatus_def)
    next
      assume "\<exists>pre fp post running1 app1 vp.
             GetAllStoredFinalityProviders e (fps app) = Inr (pre @ fp # post) \<and>
             sync_loop e (Height b) pre False app = (Inr running1, app1) \<and>
             QueryFinalityProviderVotingPower e (BtcPk fp) (Height b) = Inr vp \<and>
             \<not> IsFinalityProviderRunning (BtcPk fp) app1 \<and>
             (UpdateFpStatusFromVotingPower vp fp (fps app1) = Inl err2 \<and> app' = app1 \<or>
              (\<exists>newStatus st'.
                 UpdateFpStatusFromVotingPower vp fp (fps app1) = Inr (newStatus, st') \<and>
                 ShouldStart (if Status fp \<noteq> newStatus then fp\<lparr>Status := newStatus\<rparr> else fp) \<and>
                 StartFinalityProvider (BtcPk fp) (app1\<lparr>fps := st'\<rparr>) = Inl err2 \<and>
                 app' = app1\<lparr>fps := st'\<rparr>))"
      then obtain pre fp post running1 app1 vp where
        g: "GetAllStoredFinalityProviders e (fps app) = Inr (pre @ fp # post)"
        and p: "sync_loop e (Height b) pre False app = (Inr running1, app1)"
        and q: "QueryFinalityProviderVotingPower e (BtcPk fp) (Height b) = Inr vp"
        and nr: "\<not> IsFinalityProviderRunning (BtcPk fp) app1"
        and f: "UpdateFpStatusFromVotingPower vp fp (fps app1) = Inl err2 \<and> app' = app1 \<or>
              (\<exists>newStatus st'.
                 UpdateFpStatusFromVotingPower vp fp (fps app1) = Inr (newStatus, st') \<and>
                 ShouldStart (if Status fp \<noteq> newStatus then fp\<lparr>Status := newStatus\<rparr> else fp) \<and>
                 StartFinalityProvider (BtcPk fp) (app1\<lparr>fps := st'\<rparr>) = Inl err2 \<and>
                 app' = app1\<lparr>fps := st'\<rparr>)"
        by blast
      have "sync_loop e (Height b) (fp # post) running1 app1 = (Inl err2, app')"
        using q nr f by (auto simp: Let_def)
      then have "sync_loop e (Height b) (pre @ fp # post) False app = (Inl err2, app')"
        using sync_loop_snoc[OF p, of fp post] by simp
      then show ?L using b g by (simp add: SyncFinalityProviderStatus_def)
    qed
  qed
qed

section \<open>SLASHED is terminal\<close>

text \<open>
  C1. For a stored finality provider whose status is SLASHED, the status sync leaves the
  status alone whatever voting power it observes, also a positive one
  (\<open>UpdateFpStatusFromVotingPower\<close> returns SLASHED and the store as it was), and after
  any sequence of operations of the app (start, stop, create, register, unjail, status
  sync, batch submission), each in an environment of its own, the provider is still stored
  with status SLASHED.
\<close>

theorem slashed_is_terminal:
  assumes "GetFinalityProvider pk (fps app) = Inr fp" and "Status fp = SLASHED"
  shows "UpdateFpStatusFromVotingPower vp fp st = Inr (SLASHED, st) \<and>
         (\<exists>fp'. GetFinalityProvider pk (fps (run ops app)) = Inr fp' \<and> Status fp' = SLASHED)"
proof
  show "UpdateFpStatusFromVotingPower vp fp st = Inr (SLASHED, st)"
    using assms(2) by (simp add: UpdateFpStatusFromVotingPower_def)
  have "store_step (fps app) (fps (run ops app))" by (rule run_store_step)
  with assms show "\<exists>fp'. GetFinalityProvider pk (fps (run ops app)) = Inr fp' \<and> Status fp' = SLASHED"
    unfolding store_step_def by blast
qed

text \<open>
  The witness is scenario 6 of the spec: a SLASHED provider, then a sync that observes
  voting power 1, an unjail transaction that the chain accepts, and a registration
  request.
\<close>

theorem slashed_is_terminal_witness:
  "GetFinalityProvider pkA (fps (started_app [example_fp pkA SLASHED])) = Inr (example_fp pkA SLASHED) \<and>
   Status (example_fp pkA SLASHED) = SLASHED \<and>
   UpdateFpStatusFromVotingPower 1 (example_fp pkA SLASHED) [example_fp pkA SLASHED]
     = Inr (SLASHED, [example_fp pkA SLASHED]) \<and>
   map Status (fps (run [(env0, OpSync), (env0, OpUnjail pkA), (env0, OpRegister pkA_hex)]
              (started_app [example_fp pkA SLASHED]))) = [SLASHED]"
proof -
  have g: "GetFinalityProvider pkA (fps (started_app [example_fp pkA SLASHED])) = Inr (example_fp pkA SLASHED)"
    by (simp add: started_app_def Start_def NewFinalityProviderApp_def GetFinalityProvider_def example_fp_def)
  have s: "Status (example_fp pkA SLASHED) = SLASHED" by (simp add: example_fp_def)
  have r: "map Status (fps (run [(env0, OpSync), (env0, OpUnjail pkA), (env0, OpRegister pkA_hex)]
              (started_app [example_fp pkA SLASHED]))) = [SLASHED]"
    by (simp add: started_app_def Start_def NewFinalityProviderApp_def GetFinalityProvider_def
          example_fp_def env0_def SyncFinalityProviderStatus_def GetAllStoredFinalityProviders_def
          IsFinalityProviderRunning_def UpdateFpStatusFromVotingPower_def ShouldStart_def
          UnjailFinalityProvider_def SetFpStatus_def RegisterFinalityProvider_def Let_def)
  show ?thesis
    using slashed_is_terminal[OF g s, of 1 "[example_fp pkA SLASHED]"
        "[(env0, OpSync), (env0, OpUnjail pkA), (env0, OpRegister pkA_hex)]"] g s r
    by simp
qed

section \<open>The last voted height never decreases\<close>

text \<open>
  C2. A provider is created with \<^verbatim>\<open>last_voted_height\<close> 0. Along every trace of operations
  of the app and of batch submissions, a provider that is stored at some point is stored
  at every later point with a \<^verbatim>\<open>last_voted_height\<close> at least as high. A batch
  submission that the chain accepts leaves the provider with \<^verbatim>\<open>last_voted_height\<close> equal
  to the maximum height of the submitted batch, which is above the previous value; the
  store that the next operation of the trace starts from is the updated one.
\<close>

theorem last_voted_height_monotone:
  "(handleCreateFinalityProviderRequest e req app = (Inr fp0, app0) \<longrightarrow>
      GetFinalityProvider (BtcPk fp0) (fps app0) = Inr fp0 \<and> LastVotedHeight fp0 = 0) \<and>
   (GetFinalityProvider pk (fps (run ops1 app)) = Inr fp1 \<longrightarrow>
      (\<exists>fp2. GetFinalityProvider pk (fps (run (ops1 @ ops2) app)) = Inr fp2 \<and>
             LastVotedHeight fp1 \<le> LastVotedHeight fp2)) \<and>
   (GetFinalityProvider pk st = Inr fp \<longrightarrow>
    SubmitBatchFinalitySignatures ie pk blocks st = (Submitted res, st') \<longrightarrow>
      GetFinalityProvider pk st' =
        Inr (fp\<lparr>LastVotedHeight := max_height (blocks_to_sign ie fp blocks)\<rparr>) \<and>
      LastVotedHeight fp < max_height (blocks_to_sign ie fp blocks))"
proof (intro conjI impI)
  assume "handleCreateFinalityProviderRequest e req app = (Inr fp0, app0)"
  then show "GetFinalityProvider (BtcPk fp0) (fps app0) = Inr fp0" "LastVotedHeight fp0 = 0"
    by (simp_all add: handleCreate_new)
next
  assume g: "GetFinalityProvider pk (fps (run ops1 app)) = Inr fp1"
  have "store_step (fps (run ops1 app)) (fps (run ops2 (run ops1 app)))"
    by (rule run_store_step)
  with g show "\<exists>fp2. GetFinalityProvider pk (fps (run (ops1 @ ops2) app)) = Inr fp2 \<and>
             LastVotedHeight fp1 \<le> LastVotedHeight fp2"
    unfolding store_step_def run_append by blast
next
  assume "GetFinalityProvider pk st = Inr fp"
    and "SubmitBatchFinalitySignatures ie pk blocks st = (Submitted res, st')"
  then show "GetFinalityProvider pk st' =
        Inr (fp\<lparr>LastVotedHeight := max_height (blocks_to_sign ie fp blocks)\<rparr>)"
    "LastVotedHeight fp < max_height (blocks_to_sign ie fp blocks)"
    by (simp_all add: Submitted_height)
qed

text \<open>
  The witness follows the test \<^verbatim>\<open>FuzzSubmitFinalitySigs\<close> and scenario 2 of the spec: a
  created provider has height 0; a REGISTERED provider submits the block at height 102 and
  has \<^verbatim>\<open>last_voted_height\<close> 102; a later batch at heights 101 and 102, a sync and an unjail
  do not lower it.
\<close>

theorem last_voted_height_monotone_witness:
  "handleCreateFinalityProviderRequest env0 req0 (started_app []) =
     (Inr created_fp, started_app [created_fp]) \<and>
   GetFinalityProvider pkA (fps (started_app [created_fp])) = Inr created_fp \<and>
   LastVotedHeight created_fp = 0 \<and>
   GetFinalityProvider pkA (fps (run ops_submit (started_app [example_fp pkA REGISTERED]))) =
     Inr ((example_fp pkA REGISTERED)\<lparr>LastVotedHeight := 102\<rparr>) \<and>
   (\<exists>fp2. GetFinalityProvider pkA
            (fps (run (ops_submit @ ops_later) (started_app [example_fp pkA REGISTERED]))) = Inr fp2 \<and>
          102 \<le> LastVotedHeight fp2) \<and>
   SubmitBatchFinalitySignatures ie0 pkA [block102] [example_fp pkA REGISTERED] =
     (Submitted \<lparr>TxHash = ''0xF1''\<rparr>, [(example_fp pkA REGISTERED)\<lparr>LastVotedHeight := 102\<rparr>]) \<and>
   max_height (blocks_to_sign ie0 (example_fp pkA REGISTERED) [block102]) = 102"
proof -
  have h1: "handleCreateFinalityProviderRequest env0 req0 (started_app []) =
     (Inr created_fp, started_app [created_fp])"
    by (simp add: handleCreateFinalityProviderRequest_def CreatePop_def
          fps_CreateFinalityProvider_def req0_def created_fp_def app_defs)
  have h3: "SubmitBatchFinalitySignatures ie0 pkA [block102] [example_fp pkA REGISTERED] =
     (Submitted \<lparr>TxHash = ''0xF1''\<rparr>, [(example_fp pkA REGISTERED)\<lparr>LastVotedHeight := 102\<rparr>])"
    by (simp add: SubmitBatchFinalitySignatures_def blocks_to_sign_def max_height_def
          SetFpLastVotedHeight_def ie0_def block102_def numeral_3_eq_3 app_defs)
  have h2: "GetFinalityProvider pkA (fps (run ops_submit (started_app [example_fp pkA REGISTERED]))) =
     Inr ((example_fp pkA REGISTERED)\<lparr>LastVotedHeight := 102\<rparr>)"
    using h3 by (simp add: ops_submit_def started_app_def Start_def NewFinalityProviderApp_def
          GetFinalityProvider_def example_fp_def)
  have m: "max_height (blocks_to_sign ie0 (example_fp pkA REGISTERED) [block102]) = 102"
    by (simp add: blocks_to_sign_def max_height_def ie0_def block102_def example_fp_def)
  have c1: "GetFinalityProvider (BtcPk created_fp) (fps (started_app [created_fp])) = Inr created_fp \<and>
            LastVotedHeight created_fp = 0"
    using last_voted_height_monotone[where e = env0 and req = req0 and app = "started_app []"
        and ?fp0.0 = created_fp and ?app0.0 = "started_app [created_fp]"] h1
    by blast
  have c2: "\<exists>fp2. GetFinalityProvider pkA
            (fps (run (ops_submit @ ops_later) (started_app [example_fp pkA REGISTERED]))) = Inr fp2 \<and>
          LastVotedHeight ((example_fp pkA REGISTERED)\<lparr>LastVotedHeight := 102\<rparr>) \<le> LastVotedHeight fp2"
    using last_voted_height_monotone[where pk = pkA and ?ops1.0 = ops_submit
        and app = "started_app [example_fp pkA REGISTERED]" and ?ops2.0 = ops_later
        and ?fp1.0 = "(example_fp pkA REGISTERED)\<lparr>LastVotedHeight := 102\<rparr>"] h2
    by blast
  have g3: "GetFinalityProvider pkA [example_fp pkA REGISTERED] = Inr (example_fp pkA REGISTERED)"
    by (simp add: app_defs)
  have c3: "GetFinalityProvider pkA [(example_fp pkA REGISTERED)\<lparr>LastVotedHeight := 102\<rparr>] =
              Inr ((example_fp pkA REGISTERED)
                    \<lparr>LastVotedHeight := max_height (blocks_to_sign ie0 (example_fp pkA REGISTERED) [block102])\<rparr>)"
    using last_voted_height_monotone[where pk = pkA and st = "[example_fp pkA REGISTERED]"
        and fp = "example_fp pkA REGISTERED" and ie = ie0 and blocks = "[block102]"
        and res = "\<lparr>TxHash = ''0xF1''\<rparr>"
        and st' = "[(example_fp pkA REGISTERED)\<lparr>LastVotedHeight := 102\<rparr>]"] g3 h3
    by blast
  have k: "BtcPk created_fp = pkA" by (simp add: created_fp_def example_fp_def)
  from c1 c2 c3 h1 h2 h3 m k show ?thesis by simp
qed

section \<open>Unjailing\<close>




section \<open>Registration\<close>

text \<open>
  C4, as the code has it. For a stored provider whose status is not CREATED,
  \<open>RegisterFinalityProvider\<close> returns the error \<^verbatim>\<open>finality-provider is already registered\<close>
  and leaves the app as it was: nothing is handed to the chain and the store is unchanged.
  Whenever \<open>RegisterFinalityProvider\<close> changes the store, the provider was CREATED, the
  chain accepted its registration transaction, and the change is the write of the status
  REGISTERED for that provider. Registration is not the only way from CREATED to
  REGISTERED: the status sync takes a CREATED provider to REGISTERED when it observes zero
  voting power.
\<close>

theorem RegisterFinalityProvider_only_from_created:
  "(NewBIP340PubKeyFromHex e s = Inr pk \<longrightarrow> GetFinalityProvider pk (fps app) = Inr fp \<longrightarrow>
    Status fp \<noteq> CREATED \<longrightarrow>
      RegisterFinalityProvider e s app = (Returns (Inl ErrAlreadyRegistered), app)) \<and>
   (RegisterFinalityProvider e s app = (r, app') \<longrightarrow> fps app' \<noteq> fps app \<longrightarrow>
      (\<exists>pk fp popBytes desBytes res.
         NewBIP340PubKeyFromHex e s = Inr pk \<and>
         GetFinalityProvider pk (fps app) = Inr fp \<and> Status fp = CREATED \<and>
         cc_RegisterFinalityProvider e pk popBytes (Commission fp) desBytes = Inr res \<and>
         SetFpStatus pk REGISTERED (fps app) = Inr (fps app') \<and>
         cc_log app' = cc_log app @ [SubmitRegister pk]))"
proof (intro conjI impI)
  assume "NewBIP340PubKeyFromHex e s = Inr pk" "GetFinalityProvider pk (fps app) = Inr fp"
    "Status fp \<noteq> CREATED"
  then show "RegisterFinalityProvider e s app = (Returns (Inl ErrAlreadyRegistered), app)"
    by (simp add: RegisterFinalityProvider_def)
next
  assume "RegisterFinalityProvider e s app = (r, app')" "fps app' \<noteq> fps app"
  then show "\<exists>pk fp popBytes desBytes res.
         NewBIP340PubKeyFromHex e s = Inr pk \<and>
         GetFinalityProvider pk (fps app) = Inr fp \<and> Status fp = CREATED \<and>
         cc_RegisterFinalityProvider e pk popBytes (Commission fp) desBytes = Inr res \<and>
         SetFpStatus pk REGISTERED (fps app) = Inr (fps app') \<and>
         cc_log app' = cc_log app @ [SubmitRegister pk]"
    using Register_success_path[of e s app r app'] by blast
qed

text \<open>
  The claim as stated fails in the status sync, which \<^verbatim>\<open>app.go\<close> documents at
  \<^verbatim>\<open>syncChainFpStatusLoop\<close>: for zero voting power it goes from CREATED to REGISTERED. Here a
  sync that observes voting power 0 moves a CREATED provider to REGISTERED (and starts its
  instance) with no transaction handed to the chain.
\<close>

theorem sync_registers_created_counterexample:
  "fps (started_app [example_fp pkA CREATED]) = [example_fp pkA CREATED] \<and>
   SyncFinalityProviderStatus env_vp0 (started_app [example_fp pkA CREATED]) =
     (Inr True, (started_app [example_fp pkA REGISTERED])\<lparr>fpm_running := Some pkA\<rparr>) \<and>
   cc_log ((started_app [example_fp pkA REGISTERED])\<lparr>fpm_running := Some pkA\<rparr>) = []"
  by (simp add: env_vp0_def app_defs)

text \<open>
  A REGISTERED provider is refused; a CREATED one is registered with transaction hash
  \<^verbatim>\<open>0xAB\<close>; a registration that the chain rejects leaves the provider CREATED.
\<close>

theorem RegisterFinalityProvider_only_from_created_witness:
  "RegisterFinalityProvider env0 pkA_hex (started_app [example_fp pkA REGISTERED]) =
     (Returns (Inl ErrAlreadyRegistered), started_app [example_fp pkA REGISTERED]) \<and>
   RegisterFinalityProvider env0 pkA_hex (started_app [example_fp pkA CREATED]) =
     (Returns (Inr registered_response), registered_app) \<and>
   fps registered_app \<noteq> fps (started_app [example_fp pkA CREATED]) \<and>
   cc_RegisterFinalityProvider env0 pkA [] 0 [] = Inr \<lparr>TxHash = ''0xAB''\<rparr> \<and>
   RegisterFinalityProvider env_register_fails pkA_hex (started_app [example_fp pkA CREATED]) =
     (Returns (Inl (ErrChain ''insufficient funds'')),
      (started_app [example_fp pkA CREATED])\<lparr>cc_log := [SubmitRegister pkA]\<rparr>) \<and>
   (\<exists>pk fp popBytes desBytes res.
      NewBIP340PubKeyFromHex env0 pkA_hex = Inr pk \<and>
      GetFinalityProvider pk (fps (started_app [example_fp pkA CREATED])) = Inr fp \<and>
      Status fp = CREATED \<and>
      cc_RegisterFinalityProvider env0 pk popBytes (Commission fp) desBytes = Inr res \<and>
      SetFpStatus pk REGISTERED (fps (started_app [example_fp pkA CREATED])) = Inr (fps registered_app) \<and>
      cc_log registered_app = cc_log (started_app [example_fp pkA CREATED]) @ [SubmitRegister pk])"
proof -
  let ?R = "started_app [example_fp pkA REGISTERED]"
  let ?C = "started_app [example_fp pkA CREATED]"
  have p: "NewBIP340PubKeyFromHex env0 pkA_hex = Inr pkA" by (simp add: env0_def)
  have gR: "GetFinalityProvider pkA (fps ?R) = Inr (example_fp pkA REGISTERED)" by (simp add: app_defs)
  have sR: "Status (example_fp pkA REGISTERED) \<noteq> CREATED" by (simp add: example_fp_def)
  have 1: "RegisterFinalityProvider env0 pkA_hex ?R = (Returns (Inl ErrAlreadyRegistered), ?R)"
    using RegisterFinalityProvider_only_from_created[where e = env0 and s = pkA_hex and pk = pkA
        and app = ?R and fp = "example_fp pkA REGISTERED"] p gR sR by blast
  have 2: "RegisterFinalityProvider env0 pkA_hex ?C = (Returns (Inr registered_response), registered_app)"
    by (simp add: register_defs registered_response_def registered_app_def app_defs)
  have d: "fps registered_app \<noteq> fps ?C"
    by (simp add: registered_app_def app_defs)
  have 3: "\<exists>pk fp popBytes desBytes res.
      NewBIP340PubKeyFromHex env0 pkA_hex = Inr pk \<and>
      GetFinalityProvider pk (fps ?C) = Inr fp \<and> Status fp = CREATED \<and>
      cc_RegisterFinalityProvider env0 pk popBytes (Commission fp) desBytes = Inr res \<and>
      SetFpStatus pk REGISTERED (fps ?C) = Inr (fps registered_app) \<and>
      cc_log registered_app = cc_log ?C @ [SubmitRegister pk]"
    using RegisterFinalityProvider_only_from_created[where e = env0 and s = pkA_hex
        and app = ?C and r = "Returns (Inr registered_response)" and app' = registered_app] 2 d
    by blast
  have 4: "RegisterFinalityProvider env_register_fails pkA_hex ?C =
     (Returns (Inl (ErrChain ''insufficient funds'')), ?C\<lparr>cc_log := [SubmitRegister pkA]\<rparr>)"
    by (simp add: register_defs env_register_fails_def app_defs)
  have c: "cc_RegisterFinalityProvider env0 pkA [] 0 [] = Inr \<lparr>TxHash = ''0xAB''\<rparr>"
    by (simp add: env0_def)
  from 1 2 d 3 4 c show ?thesis by blast
qed

text \<open>
  C5. In \<^verbatim>\<open>eventLoop\<close> the response to a registration is sent only after the write of
  the status REGISTERED has succeeded: the state that comes with the response holds the
  written status, and a failed write is fatal and sends no response. So whenever
  \<open>RegisterFinalityProvider\<close> returns a success response, the provider named in it is stored
  with status REGISTERED, and the transaction hash in it is the one the chain returned.
\<close>

theorem registered_before_response:
  "(eventLoop_registered ev app = (Returns r, app1) \<longrightarrow>
      SetFpStatus (ev_btcPubKey ev) REGISTERED (fps app) = Inr (fps app1) \<and>
      (\<exists>fp. GetFinalityProvider (ev_btcPubKey ev) (fps app1) = Inr fp \<and> Status fp = REGISTERED) \<and>
      r = Inr \<lparr>resp_bbnAddress = ev_bbnAddress ev, resp_btcPubKey = ev_btcPubKey ev,
               resp_TxHash = ev_txHash ev\<rparr>) \<and>
   (SetFpStatus (ev_btcPubKey ev) REGISTERED (fps app) = Inl err \<longrightarrow>
      eventLoop_registered ev app = (Fatal err, app)) \<and>
   (RegisterFinalityProvider e s app = (Returns (Inr resp), app2) \<longrightarrow>
      NewBIP340PubKeyFromHex e s = Inr (resp_btcPubKey resp) \<and>
      (\<exists>fp. GetFinalityProvider (resp_btcPubKey resp) (fps app2) = Inr fp \<and> Status fp = REGISTERED) \<and>
      (\<exists>popBytes c desBytes res.
         cc_RegisterFinalityProvider e (resp_btcPubKey resp) popBytes c desBytes = Inr res \<and>
         resp_TxHash resp = TxHash res))"
proof (intro conjI impI)
  assume a: "eventLoop_registered ev app = (Returns r, app1)"
  then show w: "SetFpStatus (ev_btcPubKey ev) REGISTERED (fps app) = Inr (fps app1)"
    by (auto simp: eventLoop_registered_def split: sum.splits)
  from SetFpStatus_get[OF w]
  show "\<exists>fp. GetFinalityProvider (ev_btcPubKey ev) (fps app1) = Inr fp \<and> Status fp = REGISTERED"
    by auto
  from a show "r = Inr \<lparr>resp_bbnAddress = ev_bbnAddress ev, resp_btcPubKey = ev_btcPubKey ev,
               resp_TxHash = ev_txHash ev\<rparr>"
    by (auto simp: eventLoop_registered_def split: sum.splits)
next
  assume "SetFpStatus (ev_btcPubKey ev) REGISTERED (fps app) = Inl err"
  then show "eventLoop_registered ev app = (Fatal err, app)"
    by (simp add: eventLoop_registered_def)
next
  assume a: "RegisterFinalityProvider e s app = (Returns (Inr resp), app2)"
  have "fps app2 \<noteq> fps app \<or> (\<exists>resp'. Returns (Inr resp) = (Returns (Inr resp') :: RegisterFinalityProviderResponse call))"
    by blast
  from Register_success_path[OF a this] obtain pk fp fpAddr popBytes desBytes res where
    p: "NewBIP340PubKeyFromHex e s = Inr pk"
    and g: "GetFinalityProvider pk (fps app) = Inr fp"
    and st: "Status fp = CREATED"
    and ad: "AccAddressFromBech32 e (FPAddr fp) = Inr fpAddr"
    and c: "cc_RegisterFinalityProvider e pk popBytes (Commission fp) desBytes = Inr res"
    and w: "SetFpStatus pk REGISTERED (fps app) = Inr (fps app2)"
    and lg: "cc_log app2 = cc_log app @ [SubmitRegister pk]"
    and rr: "Returns (Inr resp) = Returns (Inr \<lparr>resp_bbnAddress = fpAddr, resp_btcPubKey = pk,
                                             resp_TxHash = TxHash res\<rparr>) \<or>
             Returns (Inr resp) = (Returns (Inl ErrShuttingDown) :: RegisterFinalityProviderResponse call)"
    by blast
  from rr have r: "resp = \<lparr>resp_bbnAddress = fpAddr, resp_btcPubKey = pk, resp_TxHash = TxHash res\<rparr>"
    by simp
  from r have k: "resp_btcPubKey resp = pk" and t: "resp_TxHash resp = TxHash res" by simp_all
  show "NewBIP340PubKeyFromHex e s = Inr (resp_btcPubKey resp)" using p k by simp
  show "\<exists>fp. GetFinalityProvider (resp_btcPubKey resp) (fps app2) = Inr fp \<and> Status fp = REGISTERED"
    using SetFpStatus_get[OF w] k by auto
  show "\<exists>popBytes c desBytes res.
         cc_RegisterFinalityProvider e (resp_btcPubKey resp) popBytes c desBytes = Inr res \<and>
         resp_TxHash resp = TxHash res"
    using c k t by blast
qed

text \<open>
  The event of an accepted registration, the fatal case of a provider that the store
  refuses to move, and the whole call.
\<close>

theorem registered_before_response_witness:
  "eventLoop_registered registered_event
      ((started_app [example_fp pkA CREATED])\<lparr>cc_log := [SubmitRegister pkA]\<rparr>) =
     (Returns (Inr registered_response), registered_app) \<and>
   SetFpStatus pkA REGISTERED [example_fp pkA CREATED] = Inr [example_fp pkA REGISTERED] \<and>
   SetFpStatus pkA REGISTERED [example_fp pkA SLASHED] = Inl ErrSlashedIsTerminal \<and>
   eventLoop_registered registered_event (started_app [example_fp pkA SLASHED]) =
     (Fatal ErrSlashedIsTerminal, started_app [example_fp pkA SLASHED]) \<and>
   RegisterFinalityProvider env0 pkA_hex (started_app [example_fp pkA CREATED]) =
     (Returns (Inr registered_response), registered_app) \<and>
   GetFinalityProvider pkA (fps registered_app) = Inr (example_fp pkA REGISTERED) \<and>
   (\<exists>fp. GetFinalityProvider (resp_btcPubKey registered_response) (fps registered_app) = Inr fp \<and>
         Status fp = REGISTERED)"
proof -
  let ?C = "started_app [example_fp pkA CREATED]"
  let ?S = "started_app [example_fp pkA SLASHED]"
  have 1: "eventLoop_registered registered_event (?C\<lparr>cc_log := [SubmitRegister pkA]\<rparr>) =
     (Returns (Inr registered_response), registered_app)"
    by (simp add: register_defs registered_event_def registered_response_def registered_app_def app_defs)
  have w1: "SetFpStatus pkA REGISTERED [example_fp pkA CREATED] = Inr [example_fp pkA REGISTERED]"
    by (simp add: app_defs)
  have w2: "SetFpStatus (ev_btcPubKey registered_event) REGISTERED (fps ?S) = Inl ErrSlashedIsTerminal"
    by (simp add: registered_event_def app_defs)
  have 2: "eventLoop_registered registered_event ?S = (Fatal ErrSlashedIsTerminal, ?S)"
    using registered_before_response[where ev = registered_event and app = ?S
        and err = ErrSlashedIsTerminal] w2 by blast
  have 3: "RegisterFinalityProvider env0 pkA_hex ?C = (Returns (Inr registered_response), registered_app)"
    by (simp add: register_defs registered_response_def registered_app_def app_defs)
  have 4: "\<exists>fp. GetFinalityProvider (resp_btcPubKey registered_response) (fps registered_app) = Inr fp \<and>
         Status fp = REGISTERED"
    using registered_before_response[where e = env0 and s = pkA_hex and app = ?C
        and resp = registered_response and ?app2.0 = registered_app] 3 by blast
  have 5: "GetFinalityProvider pkA (fps registered_app) = Inr (example_fp pkA REGISTERED)"
    by (simp add: registered_app_def app_defs)
  have w2': "SetFpStatus pkA REGISTERED [example_fp pkA SLASHED] = Inl ErrSlashedIsTerminal"
    by (simp add: app_defs)
  from 1 w1 w2' 2 3 4 5 show ?thesis by blast
qed

section \<open>Creating a provider twice\<close>

text \<open>
  C6. When \<open>CreateFinalityProvider\<close> has returned a record for an EOTS public key, a second
  call with the same EOTS public key, whatever its other arguments and the environment,
  returns an error and leaves the state as it was; the record stored under the key is
  still the one the first call returned.
\<close>

theorem create_twice_fails:
  assumes "CreateFinalityProvider e req app = (Returns (Inr fp1), app1)"
    and "eotsPk req2 = eotsPk req"
  shows "(\<exists>err. CreateFinalityProvider e2 req2 app1 = (Returns (Inl err), app1)) \<and>
         GetFinalityProvider (BtcPk fp1) (fps app1) = Inr fp1 \<and>
         eotsPk req = Some (BtcPk fp1)"
proof -
  from assms(1) have ev: "EventLoop \<in> set (workers app)"
    and h: "handleCreateFinalityProviderRequest e req app = (Inr fp1, app1)"
    by (auto simp: CreateFinalityProvider_def split: if_splits prod.splits)
  from handleCreate_new[OF h] have g: "GetFinalityProvider (BtcPk fp1) (fps app1) = Inr fp1"
    and k: "eotsPk req = Some (BtcPk fp1)" by simp_all
  have ev1: "EventLoop \<in> set (workers app1)"
    using handleCreate_workers[of e req app] h ev by simp
  from handleCreate_duplicate[OF g, of req2 e2] assms(2) k obtain err where
    "handleCreateFinalityProviderRequest e2 req2 app1 = (Inl err, app1)" by auto
  then have "\<exists>err. CreateFinalityProvider e2 req2 app1 = (Returns (Inl err), app1)"
    using ev1 by (simp add: CreateFinalityProvider_def)
  with g k show ?thesis by simp
qed

text \<open>
  The first call stores the record for \<open>pkA\<close>; the second, with another key name and
  moniker, fails to save (the key is already stored) and changes nothing.
\<close>

theorem create_twice_fails_witness:
  "CreateFinalityProvider env0 req0 (started_app []) =
     (Returns (Inr created_fp), started_app [created_fp]) \<and>
   eotsPk req0_again = eotsPk req0 \<and>
   CreateFinalityProvider env0 req0_again (started_app [created_fp]) =
     (Returns (Inl (ErrFailedToSaveFp ErrDuplicateFinalityProvider)), started_app [created_fp]) \<and>
   GetFinalityProvider pkA (fps (started_app [created_fp])) = Inr created_fp"
proof -
  have 1: "CreateFinalityProvider env0 req0 (started_app []) =
     (Returns (Inr created_fp), started_app [created_fp])"
    by (simp add: CreateFinalityProvider_def handleCreateFinalityProviderRequest_def CreatePop_def
          fps_CreateFinalityProvider_def req0_def created_fp_def app_defs)
  have 2: "eotsPk req0_again = eotsPk req0" by (simp add: req0_again_def)
  have 3: "CreateFinalityProvider env0 req0_again (started_app [created_fp]) =
     (Returns (Inl (ErrFailedToSaveFp ErrDuplicateFinalityProvider)), started_app [created_fp])"
    by (simp add: CreateFinalityProvider_def handleCreateFinalityProviderRequest_def CreatePop_def
          fps_CreateFinalityProvider_def req0_again_def req0_def created_fp_def app_defs)
  have k: "BtcPk created_fp = pkA" by (simp add: created_fp_def example_fp_def)
  from create_twice_fails[OF 1 2, of env0] 3 k 1 2 show ?thesis by simp
qed

section \<open>Proof of possession\<close>

text \<open>
  C7. \<open>CreatePop\<close> asks the EOTS manager for a Schnorr signature over \<^verbatim>\<open>tmhash.Sum\<close>
  (SHA-256) of the address bytes, naming the key by its public key only: no private key is
  among its arguments. When the manager returns a signature, the result is the proof of
  possession with signature type BIP-340 and that signature; when the manager fails, its
  error is returned wrapped. Provided the signatures the manager returns for this key
  verify under it, the returned proof of possession verifies against the address and the
  x-only public key.
\<close>

theorem CreatePop_proof_of_possession:
  "(SignSchnorrSig e fpPk (tmhash_Sum e fpAddress) passphrase = Inr sig \<longrightarrow>
      CreatePop e fpAddress fpPk passphrase = Inr \<lparr>BtcSigType = BIP340, BtcSig = sig\<rparr>) \<and>
   (SignSchnorrSig e fpPk (tmhash_Sum e fpAddress) passphrase = Inl err \<longrightarrow>
      CreatePop e fpAddress fpPk passphrase = Inl (ErrFailedToGetSchnorrSig err)) \<and>
   ((\<forall>h p s. SignSchnorrSig e fpPk h p = Inr s \<longrightarrow> schnorr_Verify e fpPk h s) \<longrightarrow>
    CreatePop e fpAddress fpPk passphrase = Inr pop \<longrightarrow>
      BtcSigType pop = BIP340 \<and> VerifyBIP340 e fpAddress fpPk pop)"
  by (auto simp: CreatePop_def VerifyBIP340_def Let_def split: sum.splits)

text \<open>
  In \<open>env0\<close> the signer's signatures verify, and the proof of possession for the address
  \<open>addr0\<close> and the key \<open>pkA\<close> verifies; a signer that does not know the key gives an
  error.
\<close>

theorem CreatePop_proof_of_possession_witness:
  "SignSchnorrSig env0 pkA (tmhash_Sum env0 addr0) ''passphrase'' = Inr (tmhash_Sum env0 addr0 @ pkA) \<and>
   CreatePop env0 addr0 pkA ''passphrase'' =
     Inr \<lparr>BtcSigType = BIP340, BtcSig = tmhash_Sum env0 addr0 @ pkA\<rparr> \<and>
   VerifyBIP340 env0 addr0 pkA \<lparr>BtcSigType = BIP340, BtcSig = tmhash_Sum env0 addr0 @ pkA\<rparr> \<and>
   SignSchnorrSig env_sign_fails pkA (tmhash_Sum env_sign_fails addr0) ''passphrase'' =
     Inl (ErrEOTS ''key not found'') \<and>
   CreatePop env_sign_fails addr0 pkA ''passphrase'' =
     Inl (ErrFailedToGetSchnorrSig (ErrEOTS ''key not found''))"
proof -
  let ?sig = "tmhash_Sum env0 addr0 @ pkA"
  have s: "SignSchnorrSig env0 pkA (tmhash_Sum env0 addr0) ''passphrase'' = Inr ?sig"
    by (simp add: env0_def)
  have f: "SignSchnorrSig env_sign_fails pkA (tmhash_Sum env_sign_fails addr0) ''passphrase'' =
     Inl (ErrEOTS ''key not found'')"
    by (simp add: env_sign_fails_def)
  have sound: "\<forall>h p s. SignSchnorrSig env0 pkA h p = Inr s \<longrightarrow> schnorr_Verify env0 pkA h s"
    by (simp add: env0_def)
  have 1: "CreatePop env0 addr0 pkA ''passphrase'' = Inr \<lparr>BtcSigType = BIP340, BtcSig = ?sig\<rparr>"
    using CreatePop_proof_of_possession[where e = env0 and fpPk = pkA and fpAddress = addr0
        and passphrase = "''passphrase''" and sig = ?sig] s by blast
  have 2: "VerifyBIP340 env0 addr0 pkA \<lparr>BtcSigType = BIP340, BtcSig = ?sig\<rparr>"
    using CreatePop_proof_of_possession[where e = env0 and fpPk = pkA and fpAddress = addr0
        and passphrase = "''passphrase''" and pop = "\<lparr>BtcSigType = BIP340, BtcSig = ?sig\<rparr>"]
      sound 1 by blast
  have 3: "CreatePop env_sign_fails addr0 pkA ''passphrase'' =
     Inl (ErrFailedToGetSchnorrSig (ErrEOTS ''key not found''))"
    using CreatePop_proof_of_possession[where e = env_sign_fails and fpPk = pkA
        and fpAddress = addr0 and passphrase = "''passphrase''"
        and err = "ErrEOTS ''key not found''"] f by blast
  from s f 1 2 3 show ?thesis by blast
qed

section \<open>Start and Stop run once\<close>

text \<open>
  C8, as the code has it. \<open>Start\<close> returns no error. A second \<open>Start\<close> and a second
  \<open>Stop\<close> change nothing (no loop is spawned again, nothing is shut down again) and return
  no error: the error variable is local to the call and only the body under the
  \<^verbatim>\<open>sync.Once\<close> assigns it. So the second call returns the first call's result when the
  first call returned no error.
\<close>

theorem Start_Stop_once:
  "fst (Start app) = None \<and>
   Start (snd (Start app)) = (None, snd (Start app)) \<and>
   Stop e2 (snd (Stop e app)) = (None, snd (Stop e app)) \<and>
   (fst (Stop e app) = None \<longrightarrow> fst (Stop e2 (snd (Stop e app))) = fst (Stop e app))"
  by (simp add: Start_def Stop_def Let_def split: option.split)

text \<open>
  The claim as stated fails for \<open>Stop\<close> when the first call fails: closing the EOTS
  manager returns an error, the first \<open>Stop\<close> returns it, and the second \<open>Stop\<close> returns no
  error.
\<close>

theorem Stop_second_result_counterexample:
  "fst (Stop env_close_fails (started_app [])) = Some (ErrEOTS ''connection is closing'') \<and>
   fst (Stop env_close_fails (snd (Stop env_close_fails (started_app [])))) = None"
  by (simp add: Stop_def Let_def env_close_fails_def app_defs)

text \<open>
  \<open>Start\<close> spawns the four loops once; \<open>Stop\<close> in \<open>env0\<close> returns no error and ends them; the
  second calls return the same and change nothing.
\<close>

theorem Start_Stop_once_witness:
  "Start (NewFinalityProviderApp []) = (None, started_app []) \<and>
   workers (started_app []) =
     [SyncChainFpStatusLoop, EventLoop, RegistrationLoop, MetricsUpdateLoop] \<and>
   Start (started_app []) = (None, started_app []) \<and>
   fst (Stop env0 (started_app [])) = None \<and>
   workers (snd (Stop env0 (started_app []))) = [] \<and>
   Stop env0 (snd (Stop env0 (started_app []))) = (None, snd (Stop env0 (started_app []))) \<and>
   fst (Stop env0 (snd (Stop env0 (started_app [])))) = fst (Stop env0 (started_app []))"
proof -
  have 1: "Start (NewFinalityProviderApp []) = (None, started_app [])"
    by (simp add: started_app_def Start_def)
  have 2: "workers (started_app []) =
     [SyncChainFpStatusLoop, EventLoop, RegistrationLoop, MetricsUpdateLoop]"
    by (simp add: app_defs)
  have 3: "fst (Stop env0 (started_app [])) = None" "workers (snd (Stop env0 (started_app []))) = []"
    by (simp_all add: Stop_def Let_def app_defs)
  have 4: "Start (started_app []) = (None, started_app [])"
    using Start_Stop_once[of "NewFinalityProviderApp []"] by (simp add: started_app_def)
  from Start_Stop_once[of "started_app []" env0 env0] 1 2 3 4 show ?thesis by simp
qed

section \<open>The status sync\<close>

text \<open>
  C9, as the code has it. A provider whose voting-power query fails is skipped: the loop of
  \<open>SyncFinalityProviderStatus\<close> gives the same result, error or flag, and the same state as
  if the provider were not in the list, so the remaining providers are handled and the
  sync can still return the flag with no error. After the sync the provider is stored as
  before, and it is not the running instance unless it was before. The sync returns an
  error exactly in these cases, and the error and the state are the ones of the case:
  \<^verbatim>\<open>QueryBestBlock\<close> fails; the read of the stored providers fails; or the loop has handled
  some providers without an error and, for the next one, whose voting power was read and
  whose instance is not running, the status update fails, or the update succeeds, the
  provider should start and \<open>StartFinalityProvider\<close> fails.
\<close>

theorem sync_skips_failed_voting_power_query:
  "(QueryFinalityProviderVotingPower e (BtcPk fp) h = Inl err \<longrightarrow>
      sync_loop e h (pre @ fp # post) running app = sync_loop e h (pre @ post) running app) \<and>
   (QueryBestBlock e = Inr b \<longrightarrow> QueryFinalityProviderVotingPower e pk (Height b) = Inl err \<longrightarrow>
      GetFinalityProvider pk (fps (snd (SyncFinalityProviderStatus e app))) =
        GetFinalityProvider pk (fps app) \<and>
      (fpm_running (snd (SyncFinalityProviderStatus e app)) = Some pk \<longrightarrow>
         fpm_running app = Some pk)) \<and>
   (SyncFinalityProviderStatus e app = (Inl err2, app') \<longleftrightarrow>
      (QueryBestBlock e = Inl err2 \<and> app' = app) \<or>
      (\<exists>b. QueryBestBlock e = Inr b \<and>
         (GetAllStoredFinalityProviders e (fps app) = Inl err2 \<and> app' = app \<or>
          (\<exists>pre fp post running1 app1 vp.
             GetAllStoredFinalityProviders e (fps app) = Inr (pre @ fp # post) \<and>
             sync_loop e (Height b) pre False app = (Inr running1, app1) \<and>
             QueryFinalityProviderVotingPower e (BtcPk fp) (Height b) = Inr vp \<and>
             \<not> IsFinalityProviderRunning (BtcPk fp) app1 \<and>
             (UpdateFpStatusFromVotingPower vp fp (fps app1) = Inl err2 \<and> app' = app1 \<or>
              (\<exists>newStatus st'.
                 UpdateFpStatusFromVotingPower vp fp (fps app1) = Inr (newStatus, st') \<and>
                 ShouldStart (if Status fp \<noteq> newStatus then fp\<lparr>Status := newStatus\<rparr> else fp) \<and>
                 StartFinalityProvider (BtcPk fp) (app1\<lparr>fps := st'\<rparr>) = Inl err2 \<and>
                 app' = app1\<lparr>fps := st'\<rparr>))))))"
proof (intro conjI impI)
  assume "QueryFinalityProviderVotingPower e (BtcPk fp) h = Inl err"
  then show "sync_loop e h (pre @ fp # post) running app = sync_loop e h (pre @ post) running app"
    by (rule sync_loop_skip)
next
  assume b: "QueryBestBlock e = Inr b"
    and q: "QueryFinalityProviderVotingPower e pk (Height b) = Inl err"
  have s: "snd (SyncFinalityProviderStatus e app) = app \<or>
           SyncFinalityProviderStatus e app = sync_loop e (Height b) (fps app) False app"
    using b by (simp add: SyncFinalityProviderStatus_def GetAllStoredFinalityProviders_def
                     split: option.split)
  show "GetFinalityProvider pk (fps (snd (SyncFinalityProviderStatus e app))) =
        GetFinalityProvider pk (fps app)"
    using sync_loop_untouched[OF q, of "fps app" False app] s by auto
  assume "fpm_running (snd (SyncFinalityProviderStatus e app)) = Some pk"
  then show "fpm_running app = Some pk"
    using sync_loop_untouched[OF q, of "fps app" False app] s by auto
next
  show "SyncFinalityProviderStatus e app = (Inl err2, app') \<longleftrightarrow>
      (QueryBestBlock e = Inl err2 \<and> app' = app) \<or>
      (\<exists>b. QueryBestBlock e = Inr b \<and>
         (GetAllStoredFinalityProviders e (fps app) = Inl err2 \<and> app' = app \<or>
          (\<exists>pre fp post running1 app1 vp.
             GetAllStoredFinalityProviders e (fps app) = Inr (pre @ fp # post) \<and>
             sync_loop e (Height b) pre False app = (Inr running1, app1) \<and>
             QueryFinalityProviderVotingPower e (BtcPk fp) (Height b) = Inr vp \<and>
             \<not> IsFinalityProviderRunning (BtcPk fp) app1 \<and>
             (UpdateFpStatusFromVotingPower vp fp (fps app1) = Inl err2 \<and> app' = app1 \<or>
              (\<exists>newStatus st'.
                 UpdateFpStatusFromVotingPower vp fp (fps app1) = Inr (newStatus, st') \<and>
                 ShouldStart (if Status fp \<noteq> newStatus then fp\<lparr>Status := newStatus\<rparr> else fp) \<and>
                 StartFinalityProvider (BtcPk fp) (app1\<lparr>fps := st'\<rparr>) = Inl err2 \<and>
                 app' = app1\<lparr>fps := st'\<rparr>)))))"
    by (rule Sync_error_iff)
qed

text \<open>
  The claim as stated fails on \<^verbatim>\<open>return false, err\<close> after \<open>StartFinalityProvider\<close>: with two
  REGISTERED providers that both have voting power, the best block is read, the store is
  read, both status updates succeed, the first instance is started, and the sync returns
  the error of starting the second one.
\<close>

theorem sync_aborts_on_start_failure_counterexample:
  "QueryBestBlock env0 = Inr \<lparr>Height = 100, Hash = []\<rparr> \<and>
   GetAllStoredFinalityProviders env0
       (fps (started_app [example_fp pkA REGISTERED, example_fp pkB REGISTERED])) =
     Inr [example_fp pkA REGISTERED, example_fp pkB REGISTERED] \<and>
   UpdateFpStatusFromVotingPower 1 (example_fp pkA REGISTERED)
       [example_fp pkA REGISTERED, example_fp pkB REGISTERED] =
     Inr (ACTIVE, [example_fp pkA ACTIVE, example_fp pkB REGISTERED]) \<and>
   UpdateFpStatusFromVotingPower 1 (example_fp pkB REGISTERED)
       [example_fp pkA ACTIVE, example_fp pkB REGISTERED] =
     Inr (ACTIVE, [example_fp pkA ACTIVE, example_fp pkB ACTIVE]) \<and>
   SyncFinalityProviderStatus env0
       (started_app [example_fp pkA REGISTERED, example_fp pkB REGISTERED]) =
     (Inl ErrMultipleFinalityProviders,
      (started_app [example_fp pkA ACTIVE, example_fp pkB ACTIVE])\<lparr>fpm_running := Some pkA\<rparr>)"
  by (simp add: app_defs)

text \<open>
  The voting-power query fails for \<open>pkA\<close>: the sync starts \<open>pkB\<close> and returns the flag with
  no error, and \<open>pkA\<close> is stored as before. Each cause of an abort at a concrete input: a
  failed best-block query; a failed read of the bucket; a second provider to start while
  the first one runs; and a status update that the store refuses, in a corrupted bucket
  that holds a second record under the key of a SLASHED provider.
\<close>

theorem sync_skips_failed_voting_power_query_witness:
  "QueryBestBlock env_vp_fails = Inr \<lparr>Height = 100, Hash = []\<rparr> \<and>
   QueryFinalityProviderVotingPower env_vp_fails pkA 100 = Inl (ErrChain ''rpc timeout'') \<and>
   SyncFinalityProviderStatus env_vp_fails
       (started_app [example_fp pkA REGISTERED, example_fp pkB ACTIVE]) =
     (Inr True,
      (started_app [example_fp pkA REGISTERED, example_fp pkB ACTIVE])\<lparr>fpm_running := Some pkB\<rparr>) \<and>
   sync_loop env_vp_fails 100 ([] @ example_fp pkA REGISTERED # [example_fp pkB ACTIVE]) False
       (started_app [example_fp pkA REGISTERED, example_fp pkB ACTIVE]) =
     sync_loop env_vp_fails 100 ([] @ [example_fp pkB ACTIVE]) False
       (started_app [example_fp pkA REGISTERED, example_fp pkB ACTIVE]) \<and>
   GetFinalityProvider pkA (fps (snd (SyncFinalityProviderStatus env_vp_fails
       (started_app [example_fp pkA REGISTERED, example_fp pkB ACTIVE])))) =
     Inr (example_fp pkA REGISTERED) \<and>
   QueryBestBlock env_best_block_fails = Inl (ErrChain ''node is catching up'') \<and>
   SyncFinalityProviderStatus env_best_block_fails (started_app [example_fp pkA REGISTERED]) =
     (Inl (ErrChain ''node is catching up''), started_app [example_fp pkA REGISTERED]) \<and>
   GetAllStoredFinalityProviders env_read_fails (fps (started_app [example_fp pkA REGISTERED])) =
     Inl (ErrDatabase ''database not open'') \<and>
   SyncFinalityProviderStatus env_read_fails (started_app [example_fp pkA REGISTERED]) =
     (Inl (ErrDatabase ''database not open''), started_app [example_fp pkA REGISTERED]) \<and>
   sync_loop env0 100 [example_fp pkA ACTIVE] False
       (started_app [example_fp pkA ACTIVE, example_fp pkB INACTIVE]) =
     (Inr True, (started_app [example_fp pkA ACTIVE, example_fp pkB INACTIVE])
                  \<lparr>fpm_running := Some pkA\<rparr>) \<and>
   StartFinalityProvider pkB
       ((started_app [example_fp pkA ACTIVE, example_fp pkB ACTIVE])\<lparr>fpm_running := Some pkA\<rparr>) =
     Inl ErrMultipleFinalityProviders \<and>
   SyncFinalityProviderStatus env0 (started_app [example_fp pkA ACTIVE, example_fp pkB INACTIVE]) =
     (Inl ErrMultipleFinalityProviders,
      (started_app [example_fp pkA ACTIVE, example_fp pkB ACTIVE])\<lparr>fpm_running := Some pkA\<rparr>) \<and>
   sync_loop env0 100 [example_fp pkA SLASHED] False corrupted_app = (Inr False, corrupted_app) \<and>
   UpdateFpStatusFromVotingPower 1 (example_fp pkA REGISTERED) (fps corrupted_app) =
     Inl ErrSlashedIsTerminal \<and>
   SyncFinalityProviderStatus env0 corrupted_app = (Inl ErrSlashedIsTerminal, corrupted_app)"
proof -
  let ?app = "started_app [example_fp pkA REGISTERED, example_fp pkB ACTIVE]"
  let ?R = "started_app [example_fp pkA REGISTERED]"
  let ?T = "started_app [example_fp pkA ACTIVE, example_fp pkB INACTIVE]"
  let ?T1 = "?T\<lparr>fpm_running := Some pkA\<rparr>"
  let ?T2 = "(started_app [example_fp pkA ACTIVE, example_fp pkB ACTIVE])\<lparr>fpm_running := Some pkA\<rparr>"
  let ?b = "\<lparr>Height = 100, Hash = []\<rparr> :: BlockInfo"
  have b: "QueryBestBlock env_vp_fails = Inr ?b"
    by (simp add: env_vp_fails_def env0_def)
  have q: "QueryFinalityProviderVotingPower env_vp_fails pkA 100 = Inl (ErrChain ''rpc timeout'')"
    by (simp add: env_vp_fails_def)
  have q': "QueryFinalityProviderVotingPower env_vp_fails (BtcPk (example_fp pkA REGISTERED)) 100 =
              Inl (ErrChain ''rpc timeout'')"
    by (simp add: env_vp_fails_def example_fp_def)
  have qh: "QueryFinalityProviderVotingPower env_vp_fails pkA (Height ?b) =
              Inl (ErrChain ''rpc timeout'')"
    by (simp add: env_vp_fails_def)
  have 1: "SyncFinalityProviderStatus env_vp_fails ?app = (Inr True, ?app\<lparr>fpm_running := Some pkB\<rparr>)"
    by (simp add: env_vp_fails_def app_defs)
  have 2: "sync_loop env_vp_fails 100 ([] @ example_fp pkA REGISTERED # [example_fp pkB ACTIVE]) False ?app =
     sync_loop env_vp_fails 100 ([] @ [example_fp pkB ACTIVE]) False ?app"
    using sync_skips_failed_voting_power_query[where e = env_vp_fails
        and fp = "example_fp pkA REGISTERED" and h = 100 and err = "ErrChain ''rpc timeout''"
        and pre = "[]" and post = "[example_fp pkB ACTIVE]" and running = False and app = ?app] q'
    by blast
  have g: "GetFinalityProvider pkA (fps ?app) = Inr (example_fp pkA REGISTERED)"
    by (simp add: app_defs)
  have 3: "GetFinalityProvider pkA (fps (snd (SyncFinalityProviderStatus env_vp_fails ?app))) =
             GetFinalityProvider pkA (fps ?app)"
    using sync_skips_failed_voting_power_query[where e = env_vp_fails
        and b = ?b and pk = pkA and err = "ErrChain ''rpc timeout''" and app = ?app] b qh
    by blast
  have bf: "QueryBestBlock env_best_block_fails = Inl (ErrChain ''node is catching up'')"
    by (simp add: env_best_block_fails_def)
  have 4: "SyncFinalityProviderStatus env_best_block_fails ?R =
     (Inl (ErrChain ''node is catching up''), ?R)"
    using sync_skips_failed_voting_power_query[where e = env_best_block_fails and app = ?R
        and ?err2.0 = "ErrChain ''node is catching up''" and app' = ?R] bf
    by blast
  have br: "QueryBestBlock env_read_fails = Inr ?b"
    by (simp add: env_read_fails_def env0_def)
  have rf: "GetAllStoredFinalityProviders env_read_fails (fps ?R) = Inl (ErrDatabase ''database not open'')"
    by (simp add: env_read_fails_def GetAllStoredFinalityProviders_def)
  have 5: "SyncFinalityProviderStatus env_read_fails ?R = (Inl (ErrDatabase ''database not open''), ?R)"
    using sync_skips_failed_voting_power_query[where e = env_read_fails and app = ?R
        and ?err2.0 = "ErrDatabase ''database not open''" and app' = ?R] br rf
    by blast
  have b0: "QueryBestBlock env0 = Inr ?b" by (simp add: env0_def)
  have gT: "GetAllStoredFinalityProviders env0 (fps ?T) =
              Inr ([example_fp pkA ACTIVE] @ example_fp pkB INACTIVE # [])"
    by (simp add: app_defs)
  have pT: "sync_loop env0 (Height ?b) [example_fp pkA ACTIVE] False ?T = (Inr True, ?T1)"
    by (simp add: app_defs)
  have qT: "QueryFinalityProviderVotingPower env0 (BtcPk (example_fp pkB INACTIVE)) (Height ?b) = Inr 1"
    by (simp add: env0_def)
  have nT: "\<not> IsFinalityProviderRunning (BtcPk (example_fp pkB INACTIVE)) ?T1"
    by (simp add: IsFinalityProviderRunning_def example_fp_def)
  have uT: "UpdateFpStatusFromVotingPower 1 (example_fp pkB INACTIVE) (fps ?T1) =
              Inr (ACTIVE, [example_fp pkA ACTIVE, example_fp pkB ACTIVE])"
    by (simp add: app_defs)
  have sh: "ShouldStart (if Status (example_fp pkB INACTIVE) \<noteq> ACTIVE
                         then (example_fp pkB INACTIVE)\<lparr>Status := ACTIVE\<rparr>
                         else example_fp pkB INACTIVE)"
    by (simp add: ShouldStart_def example_fp_def)
  have fT: "StartFinalityProvider (BtcPk (example_fp pkB INACTIVE))
              (?T1\<lparr>fps := [example_fp pkA ACTIVE, example_fp pkB ACTIVE]\<rparr>) =
            Inl ErrMultipleFinalityProviders"
    by (simp add: StartFinalityProvider_def)
  have eT: "?T2 = ?T1\<lparr>fps := [example_fp pkA ACTIVE, example_fp pkB ACTIVE]\<rparr>"
    by (simp add: app_defs)
  have 6: "SyncFinalityProviderStatus env0 ?T = (Inl ErrMultipleFinalityProviders, ?T2)"
    using sync_skips_failed_voting_power_query[where e = env0 and app = ?T
        and ?err2.0 = ErrMultipleFinalityProviders and app' = ?T2] b0 gT pT qT nT uT sh fT eT
    by blast
  have gC: "GetAllStoredFinalityProviders env0 (fps corrupted_app) =
              Inr ([example_fp pkA SLASHED] @ example_fp pkA REGISTERED # [])"
    by (simp add: corrupted_app_def app_defs)
  have pC: "sync_loop env0 (Height ?b) [example_fp pkA SLASHED] False corrupted_app =
              (Inr False, corrupted_app)"
    by (simp add: corrupted_app_def app_defs)
  have qC: "QueryFinalityProviderVotingPower env0 (BtcPk (example_fp pkA REGISTERED)) (Height ?b) = Inr 1"
    by (simp add: env0_def)
  have nC: "\<not> IsFinalityProviderRunning (BtcPk (example_fp pkA REGISTERED)) corrupted_app"
    by (simp add: corrupted_app_def app_defs)
  have uC: "UpdateFpStatusFromVotingPower 1 (example_fp pkA REGISTERED) (fps corrupted_app) =
              Inl ErrSlashedIsTerminal"
    by (simp add: corrupted_app_def app_defs)
  have 7: "SyncFinalityProviderStatus env0 corrupted_app = (Inl ErrSlashedIsTerminal, corrupted_app)"
    using sync_skips_failed_voting_power_query[where e = env0 and app = corrupted_app
        and ?err2.0 = ErrSlashedIsTerminal and app' = corrupted_app] b0 gC pC qC nC uC
    by blast
  have sT: "StartFinalityProvider pkB ?T2 = Inl ErrMultipleFinalityProviders"
    by (simp add: StartFinalityProvider_def)
  have h100: "Height ?b = 100" by simp
  from b q 1 2 3 g bf 4 rf 5 pT sT 6 pC uC 7 h100 show ?thesis by simp
qed

section \<open>The status-sync loop\<close>

text \<open>
  C10. On a tick on which \<open>SyncFinalityProviderStatus\<close> reports a running instance,
  \<open>syncChainFpStatusLoop\<close> returns: whatever events follow, it has synced once on that tick
  and never again. On a tick on which the sync reports no running instance, or fails, the
  loop goes on to the next event. On the quit signal it returns. Once the loop has
  returned after some events, further events change neither the number of syncs nor the
  state.
\<close>

theorem syncChainFpStatusLoop_exits_once_running:
  "(SyncFinalityProviderStatus e app = (Inr True, app1) \<longrightarrow>
      syncChainFpStatusLoop (Tick e # evs) app = (Exited, 1, loop_done app1)) \<and>
   (SyncFinalityProviderStatus e app = (r, app1) \<longrightarrow> r \<noteq> Inr True \<longrightarrow>
      syncChainFpStatusLoop (Tick e # evs) app =
        (case syncChainFpStatusLoop evs app1 of (status, n, app2) \<Rightarrow> (status, Suc n, app2))) \<and>
   syncChainFpStatusLoop (QuitSignal # evs) app = (Exited, 0, loop_done app) \<and>
   (syncChainFpStatusLoop evs1 app = (Exited, k, app3) \<longrightarrow>
      syncChainFpStatusLoop (evs1 @ evs2) app = (Exited, k, app3))"
proof (intro conjI impI)
  assume "SyncFinalityProviderStatus e app = (Inr True, app1)"
  then show "syncChainFpStatusLoop (Tick e # evs) app = (Exited, 1, loop_done app1)"
    by simp
next
  assume "SyncFinalityProviderStatus e app = (r, app1)" "r \<noteq> Inr True"
  then show "syncChainFpStatusLoop (Tick e # evs) app =
        (case syncChainFpStatusLoop evs app1 of (status, n, app2) \<Rightarrow> (status, Suc n, app2))"
    by (auto split: sum.splits bool.splits)
next
  show "syncChainFpStatusLoop (QuitSignal # evs) app = (Exited, 0, loop_done app)"
    by simp
next
  assume "syncChainFpStatusLoop evs1 app = (Exited, k, app3)"
  then show "syncChainFpStatusLoop (evs1 @ evs2) app = (Exited, k, app3)"
    by (rule loop_exited_append)
qed

text \<open>
  A JAILED provider: the first tick observes zero voting power and the loop goes on; the
  second observes voting power 1, the provider becomes ACTIVE and is started, and the loop
  returns after two syncs, also when a third tick and the quit signal follow. The quit
  signal first ends the loop with no sync.
\<close>

theorem syncChainFpStatusLoop_exits_once_running_witness:
  "SyncFinalityProviderStatus env_vp0 (started_app [example_fp pkA JAILED]) =
     (Inr False, started_app [example_fp pkA JAILED]) \<and>
   SyncFinalityProviderStatus env0 (started_app [example_fp pkA JAILED]) =
     (Inr True, (started_app [example_fp pkA ACTIVE])\<lparr>fpm_running := Some pkA\<rparr>) \<and>
   syncChainFpStatusLoop [Tick env_vp0, Tick env0] (started_app [example_fp pkA JAILED]) =
     (Exited, 2, loop_done ((started_app [example_fp pkA ACTIVE])\<lparr>fpm_running := Some pkA\<rparr>)) \<and>
   syncChainFpStatusLoop loop_events (started_app [example_fp pkA JAILED]) =
     (Exited, 2, loop_done ((started_app [example_fp pkA ACTIVE])\<lparr>fpm_running := Some pkA\<rparr>)) \<and>
   syncChainFpStatusLoop [Tick env_vp0] (started_app [example_fp pkA JAILED]) =
     (Waiting, 1, started_app [example_fp pkA JAILED]) \<and>
   syncChainFpStatusLoop [QuitSignal, Tick env0] (started_app [example_fp pkA JAILED]) =
     (Exited, 0, loop_done (started_app [example_fp pkA JAILED]))"
proof -
  let ?J = "started_app [example_fp pkA JAILED]"
  let ?A = "(started_app [example_fp pkA ACTIVE])\<lparr>fpm_running := Some pkA\<rparr>"
  have s0: "SyncFinalityProviderStatus env_vp0 ?J = (Inr False, ?J)"
    by (simp add: env_vp0_def app_defs)
  have s1: "SyncFinalityProviderStatus env0 ?J = (Inr True, ?A)"
    by (simp add: app_defs)
  have ne: "(Inr False :: error + bool) \<noteq> Inr True" by simp
  have t1: "syncChainFpStatusLoop (Tick env0 # []) ?J = (Exited, 1, loop_done ?A)"
    using syncChainFpStatusLoop_exits_once_running[where e = env0 and app = ?J and ?app1.0 = ?A
        and evs = "[]"] s1 by blast
  have t0: "syncChainFpStatusLoop (Tick env_vp0 # [Tick env0]) ?J =
        (case syncChainFpStatusLoop [Tick env0] ?J of (status, n, app2) \<Rightarrow> (status, Suc n, app2))"
    using syncChainFpStatusLoop_exits_once_running[where e = env_vp0 and app = ?J and ?app1.0 = ?J
        and r = "Inr False" and evs = "[Tick env0]"] s0 ne by blast
  have 2: "syncChainFpStatusLoop [Tick env_vp0, Tick env0] ?J = (Exited, 2, loop_done ?A)"
    using t0 t1 by simp
  have 3: "syncChainFpStatusLoop ([Tick env_vp0, Tick env0] @ [Tick env0, QuitSignal]) ?J =
             (Exited, 2, loop_done ?A)"
    using syncChainFpStatusLoop_exits_once_running[where ?evs1.0 = "[Tick env_vp0, Tick env0]"
        and app = ?J and k = 2 and ?app3.0 = "loop_done ?A" and ?evs2.0 = "[Tick env0, QuitSignal]"] 2
    by blast
  have 4: "syncChainFpStatusLoop [Tick env_vp0] ?J = (Waiting, 1, ?J)"
    using s0 by simp
  have 5: "syncChainFpStatusLoop [QuitSignal, Tick env0] ?J = (Exited, 0, loop_done ?J)"
    using syncChainFpStatusLoop_exits_once_running[where evs = "[Tick env0]" and app = ?J]
    by blast
  from s0 s1 2 3 4 5 show ?thesis by (simp add: loop_events_def)
qed

end
